theory Spec2Isabelle
  imports Complex_Main
begin

section \<open>Python values, exceptions and calls\<close>

text \<open>
  The configuration dictionaries of \<^verbatim>\<open>neuro_symbolic_classifier.py\<close> hold arbitrary Python
  values. The values the code inspects are modelled by \<open>pyval\<close>; a dictionary with string keys
  is an association list read by \<open>map_of\<close> (the first binding of a key is the dictionary's).
  An exception is a value of type \<open>error\<close>, and a computation that may raise returns
  \<open>error + 'a\<close> with \<open>Inl\<close> for the exception. A \<open>ValueError\<close> carries the constant part
  of its message, an \<open>AttributeError\<close> the attribute that was not found.
\<close>

datatype pyval =
    PNone
  | PInt int
  | PFloat real
  | PStr string
  | PList "pyval list"
  | PDict "(string \<times> pyval) list"

datatype error =
    TypeError
  | ValueError string
  | IndexError
  | KeyError
  | AttributeError string
  | RuntimeError
  | AssertionError
  | UnboundLocalError
  | ZeroDivisionError

text \<open>Sequencing of two computations: the second runs only when the first did not raise.\<close>

definition on_ok :: "error + 'a \<Rightarrow> ('a \<Rightarrow> error + 'b) \<Rightarrow> error + 'b" where
  "on_ok r f = (case r of Inl e \<Rightarrow> Inl e | Inr x \<Rightarrow> f x)"

text \<open>\<^verbatim>\<open>d.get(key, default)\<close> on a dictionary.\<close>

definition dict_get :: "(string \<times> pyval) list \<Rightarrow> string \<Rightarrow> pyval \<Rightarrow> pyval" where
  "dict_get d k dflt = (case map_of d k of None \<Rightarrow> dflt | Some v \<Rightarrow> v)"

text \<open>\<^verbatim>\<open>v.get(key, default)\<close> on any value: only a dictionary has the method.\<close>

definition py_get :: "pyval \<Rightarrow> string \<Rightarrow> pyval \<Rightarrow> error + pyval" where
  "py_get v k dflt = (case v of PDict d \<Rightarrow> Inr (dict_get d k dflt) | _ \<Rightarrow> Inl (AttributeError ''get''))"

text \<open>\<^verbatim>\<open>v[i]\<close> with an integer subscript: negative subscripts count from the end.\<close>

definition subscript :: "nat \<Rightarrow> int \<Rightarrow> nat option" where
  "subscript len i =
     (if 0 \<le> i \<and> i < int len then Some (nat i)
      else if i < 0 \<and> - int len \<le> i then Some (nat (int len + i))
      else None)"

definition py_index :: "pyval \<Rightarrow> int \<Rightarrow> error + pyval" where
  "py_index v i =
     (case v of
        PList xs \<Rightarrow>
          (case subscript (length xs) i of None \<Rightarrow> Inl IndexError | Some j \<Rightarrow> Inr (xs ! j))
      | PStr s \<Rightarrow>
          (case subscript (length s) i of None \<Rightarrow> Inl IndexError | Some j \<Rightarrow> Inr (PStr [s ! j]))
      | PDict d \<Rightarrow> Inl KeyError
      | _ \<Rightarrow> Inl TypeError)"

text \<open>\<^verbatim>\<open>len(v)\<close>.\<close>

definition py_len :: "pyval \<Rightarrow> error + nat" where
  "py_len v =
     (case v of
        PList xs \<Rightarrow> Inr (length xs)
      | PStr s \<Rightarrow> Inr (length s)
      | PDict d \<Rightarrow> Inr (length (remdups (map fst d)))
      | _ \<Rightarrow> Inl TypeError)"

text \<open>\<^verbatim>\<open>v + n\<close> for an integer \<open>n\<close>.\<close>

definition py_add_int :: "pyval \<Rightarrow> int \<Rightarrow> error + pyval" where
  "py_add_int v n =
     (case v of
        PInt a \<Rightarrow> Inr (PInt (a + n))
      | PFloat x \<Rightarrow> Inr (PFloat (x + of_int n))
      | _ \<Rightarrow> Inl TypeError)"

text \<open>
  Binding the arguments of a call to a function whose parameters (after \<open>self\<close>) are
  \<open>params\<close>, none of them with a default and none starred: too many positional arguments, a
  keyword that is no parameter, a parameter given twice and a parameter left without a value
  are each a \<open>TypeError\<close>.
\<close>

definition bind_arguments ::
  "string list \<Rightarrow> 'v list \<Rightarrow> (string \<times> 'v) list \<Rightarrow> error + (string \<times> 'v) list" where
  "bind_arguments params args kwargs =
     (if length params < length args then Inl TypeError
      else if list_ex (\<lambda>k. k \<notin> set params) (map fst kwargs) then Inl TypeError
      else if list_ex (\<lambda>k. k \<in> set (take (length args) params)) (map fst kwargs) then Inl TypeError
      else if list_ex (\<lambda>p. p \<notin> set (map fst kwargs)) (drop (length args) params) then Inl TypeError
      else Inr (zip params args @ kwargs))"

section \<open>The torch constructors the model calls\<close>

text \<open>
  \<open>nn.Linear\<close>, \<open>nn.ReLU\<close>, \<open>nn.Dropout\<close> and \<open>nn.MultiheadAttention\<close> belong to the torch
  library. At construction only their shapes matter. For \<open>nn.Linear\<close> a size that is no
  integer, or no 64-bit integer, is a \<open>TypeError\<close> and a negative size a \<open>RuntimeError\<close> (a
  size too large for the memory of the machine is not modelled).
\<close>

datatype layer =
    Linear nat nat
  | ReLU
  | Dropout real
  | MultiheadAttention nat nat

definition is_int :: "pyval \<Rightarrow> bool" where
  "is_int v = (case v of PInt n \<Rightarrow> True | _ \<Rightarrow> False)"

definition int_of :: "pyval \<Rightarrow> int" where
  "int_of v = (case v of PInt n \<Rightarrow> n | _ \<Rightarrow> 0)"

definition fits_int64 :: "int \<Rightarrow> bool" where
  "fits_int64 n = (- (2 ^ 63) \<le> n \<and> n < 2 ^ 63)"

definition nn_Linear :: "pyval \<Rightarrow> pyval \<Rightarrow> error + layer" where
  "nn_Linear in_features out_features =
     (if \<not> is_int in_features \<or> \<not> is_int out_features then Inl TypeError
      else if \<not> fits_int64 (int_of in_features) \<or> \<not> fits_int64 (int_of out_features)
      then Inl TypeError
      else if int_of in_features < 0 \<or> int_of out_features < 0 then Inl RuntimeError
      else Inr (Linear (nat (int_of in_features)) (nat (int_of out_features))))"

text \<open>
  \<open>nn.MultiheadAttention\<close> first compares the embedding width with zero (a value that is no
  number cannot be compared), then asserts that the number of heads divides it, and only
  then allocates its weights, which needs an integer width.
\<close>

definition nn_MultiheadAttention :: "pyval \<Rightarrow> nat \<Rightarrow> error + layer" where
  "nn_MultiheadAttention embed_dim num_heads =
     (case embed_dim of
        PInt n \<Rightarrow>
          if n \<le> 0 then Inl (ValueError ''embed_dim and num_heads must be greater than 0'')
          else if \<not> int num_heads dvd n then Inl AssertionError
          else Inr (MultiheadAttention (nat n) num_heads)
      | PFloat x \<Rightarrow>
          if x \<le> 0 then Inl (ValueError ''embed_dim and num_heads must be greater than 0'')
          else if frac (x / real num_heads) \<noteq> 0 then Inl AssertionError
          else Inl TypeError
      | _ \<Rightarrow> Inl TypeError)"

section \<open>SimpleReasoner\<close>

text \<open>
  \<^verbatim>\<open>SimpleReasoner.__init__(self, config)\<close> takes one parameter; \<open>BaseReasoner.__init__\<close>
  stores it and sets \<open>knowledge_base\<close> to \<open>None\<close>. The output size is the constant 32.
\<close>

record reasoner =
  reasoner_config :: pyval
  knowledge_base :: pyval
  rules :: pyval
  output_size :: nat

definition SimpleReasoner_init :: "pyval \<Rightarrow> error + reasoner" where
  "SimpleReasoner_init cfg =
     on_ok (py_get cfg ''rules'' (PList [])) (\<lambda>rs.
       Inr \<lparr>reasoner_config = cfg, knowledge_base = PNone, rules = rs, output_size = 32\<rparr>)"

text \<open>The call \<^verbatim>\<open>SimpleReasoner(*args, **kwargs)\<close>: bind the arguments, then run the body.\<close>

definition SimpleReasoner :: "pyval list \<Rightarrow> (string \<times> pyval) list \<Rightarrow> error + reasoner" where
  "SimpleReasoner args kwargs =
     on_ok (bind_arguments [''config''] args kwargs) (\<lambda>bound.
       case map_of bound ''config'' of
         None \<Rightarrow> Inl TypeError
       | Some cfg \<Rightarrow> SimpleReasoner_init cfg)"

definition get_output_size :: "reasoner \<Rightarrow> nat" where
  "get_output_size r = output_size r"

section \<open>Construction of NeuroSymbolicClassifier\<close>

text \<open>
  A method whose name starts with an underscore is written without it:
  \<open>_build_neural_network\<close> is \<open>build_neural_network\<close>, \<open>_forward_pass\<close> is \<open>forward_pass\<close>,
  and so on.

  The object: the attributes \<open>BaseModel.__init__\<close> and
  \<open>NeuroSymbolicClassifier.__init__\<close> set. The type parameter is the representation of a torch
  module: a list of layers while the object is built, a callable once it is used.
\<close>

datatype 'n fusion =
    Sequential 'n
  | AttentionFusion (neural_size: pyval) (symbolic_size: nat) (attention: 'n) (output_layer: 'n)

record 'n model =
  config :: "(string \<times> pyval) list"
  is_trained :: bool
  model_version :: pyval
  metadata :: "(string \<times> pyval) list"
  input_size :: pyval
  hidden_layers :: pyval
  num_classes :: pyval
  symbolic_rules :: pyval
  reasoning_engine :: pyval
  integration_method :: pyval
  neural_network :: 'n
  symbolic_reasoner :: reasoner
  integration_layer :: "'n fusion"

text \<open>The loop \<^verbatim>\<open>for i in range(len(self.hidden_layers) - 1)\<close> of \<open>_build_neural_network\<close>.\<close>

fun hidden_stack :: "pyval \<Rightarrow> nat list \<Rightarrow> error + layer list" where
  "hidden_stack h [] = Inr []"
| "hidden_stack h (i # js) =
     (case py_index h (int i) of
        Inl e \<Rightarrow> Inl e
      | Inr a \<Rightarrow>
          (case py_index h (int i + 1) of
             Inl e \<Rightarrow> Inl e
           | Inr b \<Rightarrow>
               (case nn_Linear a b of
                  Inl e \<Rightarrow> Inl e
                | Inr l \<Rightarrow>
                    (case hidden_stack h js of
                       Inl e \<Rightarrow> Inl e
                     | Inr ls \<Rightarrow> Inr ([l, ReLU, Dropout 0.2] @ ls)))))"

text \<open>
  \<open>_build_neural_network\<close>: the arguments of the first \<open>nn.Linear\<close> are evaluated before the
  call, so an empty \<open>hidden_layers\<close> raises \<open>IndexError\<close> at \<^verbatim>\<open>self.hidden_layers[0]\<close>.
\<close>

definition build_neural_network :: "pyval \<Rightarrow> pyval \<Rightarrow> error + layer list" where
  "build_neural_network input_sz hidden =
     on_ok (py_index hidden 0) (\<lambda>h0.
     on_ok (nn_Linear input_sz h0) (\<lambda>first.
     on_ok (py_len hidden) (\<lambda>n.
     on_ok (hidden_stack hidden [0..<n - 1]) (\<lambda>middle.
     on_ok (py_index hidden (- 1)) (\<lambda>hl.
     on_ok (nn_Linear hl hl) (\<lambda>final.
       Inr ([first, ReLU, Dropout 0.2] @ middle @ [final, ReLU])))))))"

text \<open>
  \<open>_build_symbolic_reasoner\<close>: the call passes no positional argument and the keywords
  \<open>rules\<close> and \<open>engine\<close>.
\<close>

definition build_symbolic_reasoner :: "pyval \<Rightarrow> pyval \<Rightarrow> error + reasoner" where
  "build_symbolic_reasoner sym_rules engine =
     SimpleReasoner [] [(''rules'', sym_rules), (''engine'', engine)]"

text \<open>\<open>AttentionFusion.__init__(neural_size, symbolic_size, num_classes)\<close>: eight heads.\<close>

definition AttentionFusion_init :: "pyval \<Rightarrow> nat \<Rightarrow> pyval \<Rightarrow> error + layer list fusion" where
  "AttentionFusion_init neural symbolic classes =
     on_ok (py_add_int neural (int symbolic)) (\<lambda>width.
     on_ok (nn_MultiheadAttention width 8) (\<lambda>att.
     on_ok (nn_Linear width (PInt 128)) (\<lambda>l1.
     on_ok (nn_Linear (PInt 128) classes) (\<lambda>l2.
       Inr (AttentionFusion neural symbolic [att] [l1, ReLU, Dropout 0.2, l2])))))"

text \<open>\<open>_build_integration_layer\<close>: the only place that looks at the fusion method.\<close>

definition build_integration_layer ::
  "pyval \<Rightarrow> pyval \<Rightarrow> reasoner \<Rightarrow> pyval \<Rightarrow> error + layer list fusion" where
  "build_integration_layer method hidden r classes =
     (if method = PStr ''late_fusion'' then
        on_ok (py_index hidden (- 1)) (\<lambda>hl.
        on_ok (py_add_int hl (int (get_output_size r))) (\<lambda>width.
        on_ok (nn_Linear width (PInt 128)) (\<lambda>l1.
        on_ok (nn_Linear (PInt 128) classes) (\<lambda>l2.
          Inr (Sequential [l1, ReLU, Dropout 0.2, l2])))))
      else if method = PStr ''attention_fusion'' then
        on_ok (py_index hidden (- 1)) (\<lambda>hl.
          AttentionFusion_init hl (get_output_size r) classes)
      else Inl (ValueError ''Unknown integration method''))"

text \<open>
  \<open>NeuroSymbolicClassifier.__init__(config)\<close>: read the configuration with its defaults,
  then build the encoder, the reasoner and the integration layer, in this order.
\<close>

definition NeuroSymbolicClassifier_init ::
  "(string \<times> pyval) list \<Rightarrow> error + layer list model" where
  "NeuroSymbolicClassifier_init cfg =
     (let input_sz = dict_get cfg ''input_size'' PNone;
          hidden = dict_get cfg ''hidden_layers'' (PList [PInt 256, PInt 128, PInt 64]);
          classes = dict_get cfg ''num_classes'' PNone;
          sym_rules = dict_get cfg ''symbolic_rules'' (PList []);
          engine = dict_get cfg ''reasoning_engine'' (PStr ''prolog'');
          method = dict_get cfg ''integration_method'' (PStr ''late_fusion'')
      in on_ok (build_neural_network input_sz hidden) (\<lambda>net.
         on_ok (build_symbolic_reasoner sym_rules engine) (\<lambda>r.
         on_ok (build_integration_layer method hidden r classes) (\<lambda>il.
           Inr \<lparr>config = cfg, is_trained = False, model_version = PNone, metadata = [],
                input_size = input_sz, hidden_layers = hidden, num_classes = classes,
                symbolic_rules = sym_rules, reasoning_engine = engine,
                integration_method = method, neural_network = net,
                symbolic_reasoner = r, integration_layer = il\<rparr>))))"

text \<open>Scenario A of the specification: late fusion, input 4, hidden [8, 4], two classes.\<close>

definition config_A :: "(string \<times> pyval) list" where
  "config_A =
     [(''input_size'', PInt 4), (''hidden_layers'', PList [PInt 8, PInt 4]),
      (''num_classes'', PInt 2), (''integration_method'', PStr ''late_fusion'')]"

text \<open>An attention-fusion configuration whose fused width 8 + 32 is a multiple of eight.\<close>

definition config_attention :: "(string \<times> pyval) list" where
  "config_attention =
     [(''input_size'', PInt 4), (''hidden_layers'', PList [PInt 16, PInt 8]),
      (''num_classes'', PInt 3), (''integration_method'', PStr ''attention_fusion'')]"

text \<open>A configuration with an empty list of hidden layers.\<close>

definition config_no_hidden :: "(string \<times> pyval) list" where
  "config_no_hidden =
     [(''input_size'', PInt 4), (''hidden_layers'', PList []),
      (''num_classes'', PInt 2), (''integration_method'', PStr ''late_fusion'')]"

section \<open>Tensors and the random generators\<close>

text \<open>
  A two-dimensional tensor is a list of rows; a float is a real number (rounding is not
  modelled). The state of a random generator is the stream of the numbers it will hand
  out: \<open>torch.randn(n)\<close> takes the next \<open>n\<close> of them.
\<close>

type_synonym tensor = "real list list"

type_synonym generator = "nat \<Rightarrow> real"

definition advance :: "nat \<Rightarrow> generator \<Rightarrow> generator" where
  "advance n g = (\<lambda>i. g (i + n))"

definition torch_randn :: "nat \<Rightarrow> generator \<Rightarrow> real list \<times> generator" where
  "torch_randn n g = (map g [0..<n], advance n g)"

definition torch_zeros :: "nat \<Rightarrow> real list" where
  "torch_zeros n = replicate n 0"

text \<open>\<open>torch.stack\<close> of a list of vectors: the list is not empty and the sizes agree.\<close>

definition torch_stack :: "real list list \<Rightarrow> error + tensor" where
  "torch_stack vs =
     (if vs = [] then Inl RuntimeError
      else if list_ex (\<lambda>v. length v \<noteq> length (hd vs)) vs then Inl RuntimeError
      else Inr vs)"

text \<open>\<open>torch.cat([a, b], dim=1)\<close>: the same number of rows, joined row by row.\<close>

definition torch_cat_dim1 :: "tensor \<Rightarrow> tensor \<Rightarrow> error + tensor" where
  "torch_cat_dim1 a b = (if length a = length b then Inr (map2 (@) a b) else Inl RuntimeError)"

text \<open>The index of the first maximal entry, as \<open>torch.argmax\<close> returns it.\<close>

fun argmax :: "real list \<Rightarrow> nat" where
  "argmax [] = 0"
| "argmax [x] = 0"
| "argmax (x # y # ys) = (let j = argmax (y # ys) in if x < (y # ys) ! j then Suc j else 0)"

text \<open>\<open>torch.argmax(t, dim=1)\<close>: a row without entries has no maximum.\<close>

definition torch_argmax_dim1 :: "tensor \<Rightarrow> error + nat list" where
  "torch_argmax_dim1 t = (if list_ex (\<lambda>row. row = []) t then Inl IndexError else Inr (map argmax t))"

text \<open>
  The softmax of a row, over the real numbers. torch computes it in float32 and rounds, so
  nothing is stated here about which of two nearly equal logits gets the larger probability.
\<close>

definition softmax :: "real list \<Rightarrow> real list" where
  "softmax z = map (\<lambda>x. exp x / sum_list (map exp z)) z"

definition torch_softmax_dim1 :: "tensor \<Rightarrow> tensor" where
  "torch_softmax_dim1 t = map softmax t"

section \<open>SimpleReasoner.reason\<close>

text \<open>
  The dictionary \<open>reason\<close> returns always has the keys \<open>facts\<close>, \<open>query\<close> and
  \<open>rules_applied\<close>; \<open>features\<close>, \<open>steps\<close> and \<open>confidence\<close> are present only on some
  branches.
\<close>

record 'f reasoning_result =
  facts :: "'f list"
  query :: string
  rules_applied :: "string list"
  features :: "real list option"
  steps :: "string list option"
  confidence :: "real option"

definition reason ::
  "reasoner \<Rightarrow> 'f list \<Rightarrow> string \<Rightarrow> generator \<Rightarrow> 'f reasoning_result \<times> generator" where
  "reason r fs q g =
     (let results = \<lparr>facts = fs, query = q, rules_applied = [], features = None,
                     steps = None, confidence = None\<rparr>
      in if q = ''classify'' then
           (let (v, g') = torch_randn (output_size r) g in (results\<lparr>features := Some v\<rparr>, g'))
         else if q = ''explain_classification'' then
           (results\<lparr>rules_applied := [''rule_1'', ''rule_2''],
                    steps := Some [''Analyze features'', ''Apply rules'', ''Conclude''],
                    confidence := Some 0.85\<rparr>, g)
         else (results, g))"

text \<open>
  The vector the forward pass takes from a result:
  \<^verbatim>\<open>symbolic_output.get("features", torch.zeros(self.symbolic_reasoner.get_output_size()))\<close>.
\<close>

definition symbolic_vector :: "reasoner \<Rightarrow> 'f reasoning_result \<Rightarrow> real list" where
  "symbolic_vector r res =
     (case features res of None \<Rightarrow> torch_zeros (get_output_size r) | Some v \<Rightarrow> v)"

text \<open>A reasoner as \<^verbatim>\<open>SimpleReasoner({})\<close> builds it, and a generator that hands out zeros.\<close>

definition reasoner_0 :: reasoner where
  "reasoner_0 = \<lparr>reasoner_config = PDict [], knowledge_base = PNone, rules = PList [],
                 output_size = 32\<rparr>"

definition zero_generator :: generator where
  "zero_generator = (\<lambda>i. 0)"

section \<open>Attribute lookup on the model object\<close>

text \<open>
  \<open>NeuroSymbolicClassifier\<close> derives from \<open>BaseModel\<close>, and \<open>BaseModel\<close> from \<open>ABC\<close>. An
  attribute of \<open>self\<close> is found in the instance (the attributes the two \<open>__init__\<close> set), in
  the body of \<open>NeuroSymbolicClassifier\<close> or in the body of \<open>BaseModel\<close>; \<open>ABC\<close> and \<open>object\<close>
  add only names with two leading underscores. A name found nowhere is an \<open>AttributeError\<close>.
\<close>

definition instance_namespace :: "string list" where
  "instance_namespace =
     [''config'', ''is_trained'', ''model_version'', ''metadata'', ''input_size'',
      ''hidden_layers'', ''num_classes'', ''symbolic_rules'', ''reasoning_engine'',
      ''integration_method'', ''neural_network'', ''symbolic_reasoner'', ''integration_layer'']"

definition NeuroSymbolicClassifier_namespace :: "string list" where
  "NeuroSymbolicClassifier_namespace =
     [''__init__'', ''_build_neural_network'', ''_build_symbolic_reasoner'',
      ''_build_integration_layer'', ''fit'', ''_forward_pass'', ''predict'', ''predict_proba'',
      ''explain'', ''_get_neural_importance'', ''_get_symbolic_reasoning'',
      ''_combine_explanations'', ''evaluate'', ''_calculate_explainability_score'',
      ''_calculate_robustness_score'']"

definition BaseModel_namespace :: "string list" where
  "BaseModel_namespace =
     [''__init__'', ''fit'', ''predict'', ''predict_proba'', ''explain'', ''evaluate'',
      ''save_model'', ''load_model'', ''get_metadata'']"

definition self_attribute :: "string \<Rightarrow> error + unit" where
  "self_attribute name =
     (if name \<in> set (instance_namespace @ NeuroSymbolicClassifier_namespace @ BaseModel_namespace)
      then Inr () else Inl (AttributeError name))"

section \<open>The forward pass\<close>

text \<open>
  A torch module held by the object is a callable on tensors. It may raise (a shape it does
  not accept) and it may draw from torch's generator (dropout), so it takes the generator
  and returns the new one.
\<close>

type_synonym callable = "tensor \<Rightarrow> generator \<Rightarrow> error + tensor \<times> generator"

text \<open>
  The loop \<^verbatim>\<open>for i in range(X.size(0))\<close> of \<open>_forward_pass\<close>: one \<open>classify\<close> query per row,
  each with the row as its only fact.
\<close>

fun symbolic_rows :: "reasoner \<Rightarrow> tensor \<Rightarrow> generator \<Rightarrow> real list list \<times> generator" where
  "symbolic_rows r [] g = ([], g)"
| "symbolic_rows r (x # xs) g =
     (let (res, g1) = reason r [[(''features'', x)]] ''classify'' g;
          (vs, g2) = symbolic_rows r xs g1
      in (symbolic_vector r res # vs, g2))"

text \<open>
  \<open>AttentionFusion.forward\<close>: the rows are joined, each row goes through the attention module
  as a sequence of length one, and the attended rows through the output layer.
\<close>

definition AttentionFusion_forward ::
  "callable \<Rightarrow> callable \<Rightarrow> tensor \<Rightarrow> tensor \<Rightarrow> generator \<Rightarrow> error + tensor \<times> generator" where
  "AttentionFusion_forward att out neural_features symbolic_features g =
     on_ok (torch_cat_dim1 neural_features symbolic_features) (\<lambda>combined.
     on_ok (att combined g) (\<lambda>(attended, g1). out attended g1))"

text \<open>
  \<open>_forward_pass\<close>. A \<open>Sequential\<close> takes one tensor and an \<open>AttentionFusion\<close> two, so the
  other kind of call is a \<open>TypeError\<close>; with a fusion method that is neither of the two
  strings, \<open>outputs\<close> is never assigned.
\<close>

definition forward_pass :: "callable model \<Rightarrow> tensor \<Rightarrow> generator \<Rightarrow> error + tensor \<times> generator" where
  "forward_pass m X g =
     on_ok (neural_network m X g) (\<lambda>(neural_features, g1).
       let (symbolic_outputs, g2) = symbolic_rows (symbolic_reasoner m) X g1 in
       on_ok (torch_stack symbolic_outputs) (\<lambda>symbolic_tensor.
         if integration_method m = PStr ''late_fusion'' then
           on_ok (torch_cat_dim1 neural_features symbolic_tensor) (\<lambda>combined.
             case integration_layer m of
               Sequential f \<Rightarrow> f combined g2
             | AttentionFusion ns ss att out \<Rightarrow> Inl TypeError)
         else if integration_method m = PStr ''attention_fusion'' then
           (case integration_layer m of
              Sequential f \<Rightarrow> Inl TypeError
            | AttentionFusion ns ss att out \<Rightarrow>
                AttentionFusion_forward att out neural_features symbolic_tensor g2)
         else Inl UnboundLocalError))"

section \<open>predict and predict\_proba\<close>

text \<open>The block under \<^verbatim>\<open>with torch.no_grad():\<close> in \<open>predict\<close>.\<close>

definition predict_block :: "callable model \<Rightarrow> tensor \<Rightarrow> generator \<Rightarrow> error + nat list \<times> generator" where
  "predict_block m X g =
     on_ok (forward_pass m X g) (\<lambda>(outputs, g1).
     on_ok (torch_argmax_dim1 outputs) (\<lambda>predictions. Inr (predictions, g1)))"

text \<open>The block under \<^verbatim>\<open>with torch.no_grad():\<close> in \<open>predict_proba\<close>.\<close>

definition predict_proba_block :: "callable model \<Rightarrow> tensor \<Rightarrow> generator \<Rightarrow> error + tensor \<times> generator" where
  "predict_proba_block m X g =
     on_ok (forward_pass m X g) (\<lambda>(outputs, g1). Inr (torch_softmax_dim1 outputs, g1))"

text \<open>\<open>predict\<close>: the guard, then \<^verbatim>\<open>self.eval()\<close>, then the block.\<close>

definition predict :: "callable model \<Rightarrow> tensor \<Rightarrow> generator \<Rightarrow> error + nat list \<times> generator" where
  "predict m X g =
     (if \<not> is_trained m then Inl (ValueError ''Model must be trained before making predictions'')
      else on_ok (self_attribute ''eval'') (\<lambda>u. predict_block m X g))"

definition predict_proba :: "callable model \<Rightarrow> tensor \<Rightarrow> generator \<Rightarrow> error + tensor \<times> generator" where
  "predict_proba m X g =
     (if \<not> is_trained m then Inl (ValueError ''Model must be trained before making predictions'')
      else on_ok (self_attribute ''eval'') (\<lambda>u. predict_proba_block m X g))"

section \<open>explain\<close>

text \<open>A Python float that may be infinite or not a number.\<close>

datatype pyfloat = Finite real | NonFinite

text \<open>\<open>np.mean\<close> of a vector: not a number when the vector is empty.\<close>

definition np_mean :: "real list \<Rightarrow> pyfloat" where
  "np_mean xs = (if xs = [] then NonFinite else Finite (sum_list xs / real (length xs)))"

text \<open>The decimal digits of a number, for \<^verbatim>\<open>f"feature_{i}"\<close>.\<close>

fun decimal :: "nat \<Rightarrow> string" where
  "decimal n =
     (if n < 10 then [char_of (48 + n)] else decimal (n div 10) @ [char_of (48 + n mod 10)])"

declare decimal.simps [simp del]

text \<open>The names given to the columns of an array (a tensor without rows has no columns).\<close>

definition default_feature_names :: "tensor \<Rightarrow> string list" where
  "default_feature_names X =
     map (\<lambda>i. ''feature_'' @ decimal i) [0..<(case X of [] \<Rightarrow> 0 | row # rows \<Rightarrow> length row)]"

text \<open>\<^verbatim>\<open>np.mean(np.abs(gradients), axis=0)\<close>: one mean per column.\<close>

definition mean_abs_axis0 :: "tensor \<Rightarrow> real list" where
  "mean_abs_axis0 G =
     (case G of
        [] \<Rightarrow> []
      | row # rows \<Rightarrow>
          map (\<lambda>i. sum_list (map (\<lambda>r. \<bar>r ! i\<bar>) G) / real (length G)) [0..<length row])"

record neural_importance_dict =
  importance_method :: string
  feature_names :: "string list"
  importance_scores :: "real list"
  most_important :: string

record symbolic_reasoning_dict =
  reasoning_method :: string
  reasoning_rules_applied :: "string list"
  reasoning_steps :: "string list"
  reasoning_confidence :: real

record integrated_explanation_dict =
  fusion_method :: string
  primary_features :: string
  fused_symbolic_rules :: "string list"
  fused_confidence :: real
  explanation :: string

record explanation_dict =
  neural_importance :: neural_importance_dict
  symbolic_reasoning :: symbolic_reasoning_dict
  integrated_explanation :: integrated_explanation_dict

text \<open>
  torch's automatic differentiation is a parameter: \<open>autograd f X g\<close> is the gradient of the
  sum of the entries of \<open>f(X)\<close> with respect to \<open>X\<close>, as \<^verbatim>\<open>loss.backward()\<close> leaves it in
  \<^verbatim>\<open>X_tensor.grad\<close>.
\<close>

type_synonym autograd = "callable \<Rightarrow> tensor \<Rightarrow> generator \<Rightarrow> error + tensor \<times> generator"

text \<open>
  \<open>_get_neural_importance\<close> after \<^verbatim>\<open>self.eval()\<close>, for a batch with at least one row (a
  tensor without rows has no columns here, so the scores of an empty batch are outside the
  model).
\<close>

definition neural_importance_block ::
  "autograd \<Rightarrow> callable model \<Rightarrow> tensor \<Rightarrow> string list \<Rightarrow> generator \<Rightarrow>
     error + neural_importance_dict \<times> generator" where
  "neural_importance_block ad m X names g =
     on_ok (ad (neural_network m) X g) (\<lambda>(gradients, g1).
       let scores = mean_abs_axis0 gradients in
       if scores = [] then Inl (ValueError ''attempt to get argmax of an empty sequence'')
       else if length names \<le> argmax scores then Inl IndexError
       else Inr (\<lparr>importance_method = ''gradient_importance'', feature_names = names,
                  importance_scores = scores, most_important = names ! argmax scores\<rparr>, g1))"

definition get_neural_importance ::
  "autograd \<Rightarrow> callable model \<Rightarrow> tensor \<Rightarrow> generator \<Rightarrow>
     error + neural_importance_dict \<times> generator" where
  "get_neural_importance ad m X g =
     (let names = default_feature_names X
      in on_ok (self_attribute ''eval'') (\<lambda>u. neural_importance_block ad m X names g))"

text \<open>\<open>_get_symbolic_reasoning\<close>: the first row only; \<^verbatim>\<open>X_values[0]\<close> needs a row.\<close>

definition get_symbolic_reasoning ::
  "callable model \<Rightarrow> tensor \<Rightarrow> generator \<Rightarrow> error + symbolic_reasoning_dict \<times> generator" where
  "get_symbolic_reasoning m X g =
     (case X of
        [] \<Rightarrow> Inl IndexError
      | x # xs \<Rightarrow>
          (let (res, g1) = reason (symbolic_reasoner m) [[(''features'', x)]]
                             ''explain_classification'' g
           in Inr (\<lparr>reasoning_method = ''symbolic_rules'',
                     reasoning_rules_applied = rules_applied res,
                     reasoning_steps = (case steps res of None \<Rightarrow> [] | Some st \<Rightarrow> st),
                     reasoning_confidence = (case confidence res of None \<Rightarrow> 0 | Some c \<Rightarrow> c)\<rparr>,
                   g1)))"

text \<open>How an f-string prints a list of strings (strings without quotes or escapes).\<close>

fun join :: "string \<Rightarrow> string list \<Rightarrow> string" where
  "join sep [] = []"
| "join sep [x] = x"
| "join sep (x # y # ys) = x @ sep @ join sep (y # ys)"

definition repr_list :: "string list \<Rightarrow> string" where
  "repr_list xs = ''['' @ join '', '' (map (\<lambda>x. [CHR 0x27] @ x @ [CHR 0x27]) xs) @ '']''"

definition combine_explanations ::
  "neural_importance_dict \<Rightarrow> symbolic_reasoning_dict \<Rightarrow> integrated_explanation_dict" where
  "combine_explanations ni sr =
     \<lparr>fusion_method = ''neuro_symbolic_fusion'',
      primary_features = most_important ni,
      fused_symbolic_rules = reasoning_rules_applied sr,
      fused_confidence = reasoning_confidence sr,
      explanation = ''Primary features '' @ most_important ni @ '' triggered rules: ''
        @ repr_list (reasoning_rules_applied sr)\<rparr>"

definition explain ::
  "autograd \<Rightarrow> callable model \<Rightarrow> tensor \<Rightarrow> generator \<Rightarrow> error + explanation_dict \<times> generator" where
  "explain ad m X g =
     (if \<not> is_trained m then Inl (ValueError ''Model must be trained before providing explanations'')
      else
        on_ok (get_neural_importance ad m X g) (\<lambda>(ni, g1).
        on_ok (get_symbolic_reasoning m X g1) (\<lambda>(sr, g2).
          Inr (\<lparr>neural_importance = ni, symbolic_reasoning = sr,
                integrated_explanation = combine_explanations ni sr\<rparr>, g2))))"

section \<open>evaluate\<close>

text \<open>
  \<open>np.random.normal(loc, scale, X.shape)\<close>: one draw from numpy's generator per entry of \<open>X\<close>,
  scaled and shifted. The stream of numpy's generator holds standard normal draws.
\<close>

fun np_random_normal :: "real \<Rightarrow> real \<Rightarrow> tensor \<Rightarrow> generator \<Rightarrow> tensor \<times> generator" where
  "np_random_normal loc scale [] ng = ([], ng)"
| "np_random_normal loc scale (row # rows) ng =
     (let (rest, ng') = np_random_normal loc scale rows (advance (length row) ng)
      in (map (\<lambda>i. loc + scale * ng i) [0..<length row] # rest, ng'))"

definition tensor_add :: "tensor \<Rightarrow> tensor \<Rightarrow> tensor" where
  "tensor_add A B = map2 (map2 (+)) A B"

text \<open>
  \<^verbatim>\<open>np.mean(a == b)\<close> for two vectors of labels: the share of positions where they agree.
  Vectors of different lengths cannot be compared position by position.
\<close>

definition np_mean_equal :: "nat list \<Rightarrow> nat list \<Rightarrow> error + pyfloat" where
  "np_mean_equal a b =
     (if length a \<noteq> length b then Inl (ValueError ''operands could not be broadcast together'')
      else Inr (np_mean (map2 (\<lambda>x y. if x = y then 1 else 0) a b)))"

text \<open>\<open>np.max(probabilities, axis=1)\<close>: a row without entries has no maximum.\<close>

definition np_max_axis1 :: "tensor \<Rightarrow> error + real list" where
  "np_max_axis1 t =
     (if list_ex (\<lambda>row. row = []) t
      then Inl (ValueError ''zero-size array to reduction operation maximum which has no identity'')
      else Inr (map (\<lambda>row. fold max (tl row) (hd row)) t))"

definition calculate_explainability_score :: "tensor \<Rightarrow> error + pyfloat" where
  "calculate_explainability_score probabilities =
     on_ok (np_max_axis1 probabilities) (\<lambda>max_probs. Inr (np_mean max_probs))"

text \<open>
  \<open>_calculate_robustness_score\<close>, with the method \<^verbatim>\<open>self.predict\<close> it calls as the parameter
  \<open>P\<close>. It takes numpy's generator \<open>ng\<close> for the noise and torch's generator \<open>g\<close> for the two
  predictions; the labels \<open>y\<close> are not used.
\<close>

definition robustness_score_with ::
  "(tensor \<Rightarrow> generator \<Rightarrow> error + nat list \<times> generator) \<Rightarrow> tensor \<Rightarrow> generator \<Rightarrow> generator \<Rightarrow>
     error + pyfloat \<times> generator \<times> generator" where
  "robustness_score_with P X ng g =
     (let (noise, ng1) = np_random_normal 0 0.01 X ng;
          perturbed_X = tensor_add X noise
      in on_ok (P X g) (\<lambda>(original_preds, g1).
         on_ok (P perturbed_X g1) (\<lambda>(perturbed_preds, g2).
         on_ok (np_mean_equal original_preds perturbed_preds) (\<lambda>consistency.
           Inr (consistency, ng1, g2)))))"

definition calculate_robustness_score ::
  "callable model \<Rightarrow> tensor \<Rightarrow> int list \<Rightarrow> generator \<Rightarrow> generator \<Rightarrow>
     error + pyfloat \<times> generator \<times> generator" where
  "calculate_robustness_score m X y ng g = robustness_score_with (predict m) X ng g"

text \<open>
  The four functions of \<open>sklearn.metrics\<close> that \<open>evaluate\<close> imports, as parameters (the
  import itself is taken to succeed).
\<close>

record sklearn_metrics =
  accuracy_score :: "int list \<Rightarrow> nat list \<Rightarrow> error + real"
  precision_score :: "int list \<Rightarrow> nat list \<Rightarrow> error + real"
  recall_score :: "int list \<Rightarrow> nat list \<Rightarrow> error + real"
  f1_score :: "int list \<Rightarrow> nat list \<Rightarrow> error + real"

record evaluation_report =
  report_accuracy :: real
  report_precision :: real
  report_recall :: real
  report_f1_score :: real
  explainability_score :: pyfloat
  robustness_score :: pyfloat

definition evaluate ::
  "sklearn_metrics \<Rightarrow> callable model \<Rightarrow> tensor \<Rightarrow> int list \<Rightarrow> generator \<Rightarrow> generator \<Rightarrow>
     error + evaluation_report \<times> generator \<times> generator" where
  "evaluate sk m X y ng g =
     on_ok (predict m X g) (\<lambda>(predictions, g1).
     on_ok (predict_proba m X g1) (\<lambda>(probabilities, g2).
     on_ok (accuracy_score sk y predictions) (\<lambda>acc.
     on_ok (precision_score sk y predictions) (\<lambda>prec.
     on_ok (recall_score sk y predictions) (\<lambda>rec.
     on_ok (f1_score sk y predictions) (\<lambda>f1.
     on_ok (calculate_explainability_score probabilities) (\<lambda>expl.
     on_ok (calculate_robustness_score m X y ng g2) (\<lambda>(rob, ng1, g3).
       Inr (\<lparr>report_accuracy = acc, report_precision = prec, report_recall = rec,
             report_f1_score = f1, explainability_score = expl, robustness_score = rob\<rparr>,
            ng1, g3)))))))))"

section \<open>fit\<close>

text \<open>
  What \<open>fit\<close> takes from torch is a parameter: the optimizer (\<open>torch.optim.Adam\<close>, created
  from the learning rate, with a state of its own), the validation of the batch size by
  \<open>DataLoader\<close> (given the size of the data set), the order in which \<open>DataLoader\<close> hands out
  the samples of an epoch, the loss (\<open>nn.CrossEntropyLoss\<close>, a float that may be infinite or
  not a number) and the step \<^verbatim>\<open>loss.backward(); optimizer.step()\<close>, which replaces the
  weights of the encoder and of the integration layer.
\<close>

record 's trainer =
  adam :: "pyval \<Rightarrow> error + 's"
  dataloader :: "pyval \<Rightarrow> nat \<Rightarrow> error + nat"
  shuffle :: "(real list \<times> int) list \<Rightarrow> generator \<Rightarrow> (real list \<times> int) list \<times> generator"
  criterion :: "tensor \<Rightarrow> int list \<Rightarrow> error + pyfloat"
  optimizer_step ::
    "'s \<Rightarrow> callable \<times> callable fusion \<Rightarrow> tensor \<times> int list \<Rightarrow> pyfloat \<Rightarrow>
       's \<times> callable \<times> callable fusion"

text \<open>Batches of \<open>n\<close> samples; the last one may be shorter.\<close>

fun chunks :: "nat \<Rightarrow> 'a list \<Rightarrow> 'a list list" where
  "chunks n xs = (if n = 0 \<or> xs = [] then [] else take n xs # chunks n (drop n xs))"

declare chunks.simps [simp del]

definition float_add :: "pyfloat \<Rightarrow> pyfloat \<Rightarrow> pyfloat" where
  "float_add a b =
     (case a of
        Finite x \<Rightarrow> (case b of Finite y \<Rightarrow> Finite (x + y) | NonFinite \<Rightarrow> NonFinite)
      | NonFinite \<Rightarrow> NonFinite)"

text \<open>\<^verbatim>\<open>range(v)\<close>: only an integer counts.\<close>

definition py_range :: "pyval \<Rightarrow> error + nat list" where
  "py_range v = (case v of PInt n \<Rightarrow> Inr [0..<nat n] | _ \<Rightarrow> Inl TypeError)"

text \<open>
  The loop \<^verbatim>\<open>for batch_X, batch_y in dataloader\<close>: forward pass, loss, backward pass and
  optimizer step, and the sum of the losses. Nothing looks at the value of the loss.
\<close>

fun train_batches ::
  "'s trainer \<Rightarrow> callable model \<Rightarrow> 's \<Rightarrow> (tensor \<times> int list) list \<Rightarrow> generator \<Rightarrow> pyfloat \<Rightarrow>
     error + callable model \<times> 's \<times> generator \<times> pyfloat" where
  "train_batches T m opt [] g total_loss = Inr (m, opt, g, total_loss)"
| "train_batches T m opt (batch # rest) g total_loss =
     (case forward_pass m (fst batch) g of
        Inl e \<Rightarrow> Inl e
      | Inr (outputs, g1) \<Rightarrow>
          (case criterion T outputs (snd batch) of
             Inl e \<Rightarrow> Inl e
           | Inr loss \<Rightarrow>
               (case optimizer_step T opt (neural_network m, integration_layer m) batch loss of
                  (opt1, net1, il1) \<Rightarrow>
                    train_batches T (m\<lparr>neural_network := net1, integration_layer := il1\<rparr>) opt1
                      rest g1 (float_add total_loss loss))))"

text \<open>
  The loop \<^verbatim>\<open>for epoch in range(epochs)\<close>. Every tenth epoch the log line divides the sum
  of the losses by the number of batches.
\<close>

fun train_epochs ::
  "'s trainer \<Rightarrow> callable model \<Rightarrow> 's \<Rightarrow> nat \<Rightarrow> (real list \<times> int) list \<Rightarrow> nat list \<Rightarrow> generator \<Rightarrow>
     error + callable model \<times> 's \<times> generator" where
  "train_epochs T m opt bs samples [] g = Inr (m, opt, g)"
| "train_epochs T m opt bs samples (epoch # rest) g =
     (case shuffle T samples g of
        (shuffled, g1) \<Rightarrow>
          (case train_batches T m opt (map (\<lambda>c. (map fst c, map snd c)) (chunks bs shuffled)) g1
                  (Finite 0) of
             Inl e \<Rightarrow> Inl e
           | Inr (m1, opt1, g2, total_loss) \<Rightarrow>
               if (epoch + 1) mod 10 = 0 \<and> chunks bs shuffled = [] then Inl ZeroDivisionError
               else train_epochs T m1 opt1 bs samples rest g2))"

text \<open>The training loop and the two statements after it.\<close>

definition training_block ::
  "'s trainer \<Rightarrow> callable model \<Rightarrow> 's \<Rightarrow> nat \<Rightarrow> (real list \<times> int) list \<Rightarrow> pyval \<Rightarrow> generator \<Rightarrow>
     error + callable model \<times> 's \<times> generator" where
  "training_block T m opt bs samples epochs g =
     on_ok (py_range epochs) (\<lambda>es.
     on_ok (train_epochs T m opt bs samples es g) (\<lambda>(m1, opt1, g1).
       Inr (m1\<lparr>is_trained := True\<rparr>, opt1, g1)))"

text \<open>
  \<open>fit\<close>: the hyperparameters with their defaults, \<^verbatim>\<open>self.parameters()\<close> for the optimizer,
  the data set (\<open>TensorDataset\<close> asserts as many labels as rows) and its loader,
  \<^verbatim>\<open>self.train()\<close>, and the training loop.
\<close>

definition fit ::
  "'s trainer \<Rightarrow> callable model \<Rightarrow> tensor \<Rightarrow> int list \<Rightarrow> generator \<Rightarrow>
     error + callable model \<times> 's \<times> generator" where
  "fit T m X y g =
     (let learning_rate = dict_get (config m) ''learning_rate'' (PFloat 0.001);
          epochs = dict_get (config m) ''epochs'' (PInt 100);
          batch_size = dict_get (config m) ''batch_size'' (PInt 32)
      in on_ok (self_attribute ''parameters'') (\<lambda>u.
         on_ok (adam T learning_rate) (\<lambda>opt.
         if length X \<noteq> length y then Inl AssertionError
         else
           on_ok (dataloader T batch_size (length X)) (\<lambda>bs.
           on_ok (self_attribute ''train'') (\<lambda>u.
             training_block T m opt bs (zip X y) epochs g)))))"

text \<open>
  A model of \<open>nn.CrossEntropyLoss\<close> on float32 tensors, for sample runs: the loss of a row is
  the logarithm of the sum of the exponentials of its logits minus the logit of its label,
  and the loss of a batch is the mean over its rows. A label outside the classes is an
  \<open>IndexError\<close>. A float32 holds no finite value beyond \<open>float32_max\<close>: a loss beyond it is
  infinite.
\<close>

definition float32_max :: real where
  "float32_max = 340282346638528859811704183484516925440"

definition cross_entropy_row :: "real list \<Rightarrow> nat \<Rightarrow> real" where
  "cross_entropy_row z k = ln (sum_list (map exp z)) - z ! k"

definition cross_entropy_f32 :: "tensor \<Rightarrow> int list \<Rightarrow> error + pyfloat" where
  "cross_entropy_f32 outputs labels =
     (if length outputs \<noteq> length labels
      then Inl (ValueError ''Expected input batch_size to match target batch_size'')
      else if list_ex (\<lambda>(z, k). k < 0 \<or> int (length z) \<le> k) (zip outputs labels) then Inl IndexError
      else if outputs = [] then Inr NonFinite
      else
        (let v = sum_list (map2 (\<lambda>z k. cross_entropy_row z (nat k)) outputs labels)
                   / real (length outputs)
         in if float32_max < \<bar>v\<bar> then Inr NonFinite else Inr (Finite v)))"

text \<open>
  A result of training with the attribute \<open>input_size\<close> of the returned object set to \<open>v\<close>
  (used to say that training does not read the attribute).
\<close>

definition with_input_size ::
  "pyval \<Rightarrow> error + callable model \<times> 'r \<Rightarrow> error + callable model \<times> 'r" where
  "with_input_size v r = (case r of Inl e \<Rightarrow> Inl e | Inr (m, rest) \<Rightarrow> Inr (m\<lparr>input_size := v\<rparr>, rest))"

section \<open>Sample objects\<close>

text \<open>
  An encoder for rows of width four whose weights are all zero, and a late-fusion head for
  rows of width 4 + 32 whose first logit is the first symbolic feature and whose second
  logit is zero. Both reject a row of another width.
\<close>

definition encoder_0 :: callable where
  "encoder_0 X g =
     (if list_ex (\<lambda>row. length row \<noteq> 4) X then Inl RuntimeError
      else Inr (map (\<lambda>row. [0, 0, 0, 0]) X, g))"

definition head_0 :: callable where
  "head_0 C g =
     (if list_ex (\<lambda>row. length row \<noteq> 36) C then Inl RuntimeError
      else Inr (map (\<lambda>row. [row ! 4, 0]) C, g))"

definition model_0 :: "callable model" where
  "model_0 =
     \<lparr>config = config_A, is_trained = True, model_version = PNone, metadata = [],
      input_size = PInt 4, hidden_layers = PList [PInt 8, PInt 4], num_classes = PInt 2,
      symbolic_rules = PList [], reasoning_engine = PStr ''prolog'',
      integration_method = PStr ''late_fusion'', neural_network = encoder_0,
      symbolic_reasoner = reasoner_0, integration_layer = Sequential head_0\<rparr>"

text \<open>The same object before training.\<close>

definition model_untrained :: "callable model" where
  "model_untrained = model_0\<lparr>is_trained := False\<rparr>"

text \<open>One row of width four, and one of width three.\<close>

definition X_0 :: tensor where
  "X_0 = [[0, 0, 0, 0]]"

definition X_narrow :: tensor where
  "X_narrow = [[0, 0, 0]]"

text \<open>A generator whose first 32 numbers are 1 and whose later numbers are -1.\<close>

definition flip_generator :: generator where
  "flip_generator = (\<lambda>i. if i < 32 then 1 else - 1)"

text \<open>An automatic differentiation and metrics that answer nothing.\<close>

definition autograd_0 :: autograd where
  "autograd_0 f X g = Inl RuntimeError"

definition sklearn_0 :: sklearn_metrics where
  "sklearn_0 =
     \<lparr>accuracy_score = (\<lambda>y p. Inr 0), precision_score = (\<lambda>y p. Inr 0),
      recall_score = (\<lambda>y p. Inr 0), f1_score = (\<lambda>y p. Inr 0)\<rparr>"

text \<open>
  A trainer whose loss is never finite. Its optimizer state counts the steps, its steps
  leave the weights as they are, and its loader keeps the order of the samples.
\<close>

definition trainer_nan :: "nat trainer" where
  "trainer_nan =
     \<lparr>adam = (\<lambda>lr. Inr 0),
      dataloader = (\<lambda>bs n. Inr 1),
      shuffle = (\<lambda>samples g. (samples, g)),
      criterion = (\<lambda>outputs labels. Inr NonFinite),
      optimizer_step = (\<lambda>opt weights batch loss. (Suc opt, weights))\<rparr>"

text \<open>
  A trainer for sample runs: the loss is the cross entropy above, the optimizer state counts
  the steps, a step writes back the weights it found (a learning rate of zero), and the
  loader keeps the order of the samples.
\<close>

definition trainer_f32 :: "nat trainer" where
  "trainer_f32 =
     \<lparr>adam = (\<lambda>lr. Inr 0),
      dataloader = (\<lambda>bs n. Inr 1),
      shuffle = (\<lambda>samples g. (samples, g)),
      criterion = cross_entropy_f32,
      optimizer_step = (\<lambda>opt weights batch loss. (Suc opt, weights))\<rparr>"

text \<open>
  A late-fusion head whose weights are zero and whose bias is \<open>(big_logit, - big_logit)\<close>,
  both finite float32 values, and the untrained sample object with this head.
\<close>

definition big_logit :: real where
  "big_logit = 3 * 10 ^ 38"

definition head_big :: callable where
  "head_big C g =
     (if list_ex (\<lambda>row. length row \<noteq> 36) C then Inl RuntimeError
      else Inr (map (\<lambda>row. [big_logit, - big_logit]) C, g))"

definition model_big :: "callable model" where
  "model_big =
     model_untrained\<lparr>config := config_A @ [(''learning_rate'', PFloat 0)],
       integration_layer := Sequential head_big\<rparr>"

section \<open>Construction: what the constructor does\<close>

lemma on_ok_Inr: "on_ok (Inr x) f = f x"
  by (simp add: on_ok_def)

lemma build_symbolic_reasoner_raises: "build_symbolic_reasoner sr en = Inl TypeError"
  by (simp add: build_symbolic_reasoner_def SimpleReasoner_def bind_arguments_def on_ok_def)

lemma build_neural_network_config_A:
  "build_neural_network (PInt 4) (PList [PInt 8, PInt 4]) =
     Inr [Linear 4 8, ReLU, Dropout 0.2, Linear 8 4, ReLU, Dropout 0.2, Linear 4 4, ReLU]"
  by (simp add: build_neural_network_def py_index_def subscript_def py_len_def nn_Linear_def fits_int64_def is_int_def
      int_of_def on_ok_def)

text \<open>
  Taken alone, \<open>_build_integration_layer\<close> does validate the fusion method: a method other
  than the two strings is a \<open>ValueError\<close>, and attention fusion over a fused width that
  eight does not divide (here 4 + 32) fails the assertion of \<open>nn.MultiheadAttention\<close>.
\<close>

lemma build_integration_layer_unknown_method:
  "method \<noteq> PStr ''late_fusion'' \<Longrightarrow> method \<noteq> PStr ''attention_fusion'' \<Longrightarrow>
   build_integration_layer method hidden r classes = Inl (ValueError ''Unknown integration method'')"
  by (simp add: build_integration_layer_def)

lemma build_integration_layer_late_fusion:
  "build_integration_layer (PStr ''late_fusion'') (PList [PInt 8, PInt 4]) reasoner_0 (PInt 2) =
     Inr (Sequential [Linear 36 128, ReLU, Dropout 0.2, Linear 128 2])"
  by (simp add: build_integration_layer_def py_index_def subscript_def py_add_int_def
      get_output_size_def reasoner_0_def nn_Linear_def fits_int64_def is_int_def int_of_def on_ok_def)

lemma build_integration_layer_heads:
  "build_integration_layer (PStr ''attention_fusion'') (PList [PInt 8, PInt 4]) reasoner_0 (PInt 2) =
     Inl AssertionError"
  by (simp add: build_integration_layer_def AttentionFusion_init_def py_index_def subscript_def
      py_add_int_def get_output_size_def reasoner_0_def nn_MultiheadAttention_def is_int_def
      int_of_def on_ok_def)

text \<open>
  C1. The specification promises that construction succeeds exactly when the fusion method
  is supported (and, for attention fusion, the head count divides the fused width). On the
  late-fusion configuration of Scenario A the encoder is built, and the constructor then
  raises \<open>TypeError\<close> in \<open>_build_symbolic_reasoner\<close>: it does not succeed.
\<close>

theorem construct_scenario_A_raises:
  "NeuroSymbolicClassifier_init config_A = Inl TypeError"
  by (simp add: NeuroSymbolicClassifier_init_def config_A_def dict_get_def
      build_neural_network_config_A build_symbolic_reasoner_raises on_ok_def)

theorem construct_scenario_A_raises_witness:
  "isl (NeuroSymbolicClassifier_init config_A)"
  using construct_scenario_A_raises by simp

text \<open>
  C2, as stated: every configuration makes the constructor raise \<open>TypeError\<close>. With an empty
  list of hidden layers the constructor raises \<open>IndexError\<close> in \<open>_build_neural_network\<close>,
  before the reasoner is built.
\<close>

theorem construct_no_hidden_raises_IndexError:
  "NeuroSymbolicClassifier_init config_no_hidden = Inl IndexError"
  by (simp add: NeuroSymbolicClassifier_init_def config_no_hidden_def dict_get_def
      build_neural_network_def py_index_def subscript_def on_ok_def)

text \<open>
  C2, amended: for every configuration dictionary the constructor raises before the fusion
  method is looked at, so no object is ever built. The exception is the one of
  \<open>_build_neural_network\<close> when the encoder cannot be built, and otherwise the \<open>TypeError\<close>
  of the call \<^verbatim>\<open>SimpleReasoner(rules=..., engine=...)\<close>.
\<close>

theorem construct_always_raises:
  "NeuroSymbolicClassifier_init cfg =
     (case build_neural_network (dict_get cfg ''input_size'' PNone)
             (dict_get cfg ''hidden_layers'' (PList [PInt 256, PInt 128, PInt 64])) of
        Inl e \<Rightarrow> Inl e
      | Inr net \<Rightarrow> Inl TypeError)"
  by (simp add: NeuroSymbolicClassifier_init_def build_symbolic_reasoner_raises on_ok_def
      split: sum.splits)

theorem construct_always_raises_witness:
  "NeuroSymbolicClassifier_init config_attention = Inl TypeError"
  using construct_always_raises [of config_attention]
  by (simp add: config_attention_def dict_get_def build_neural_network_def py_index_def subscript_def
      py_len_def nn_Linear_def fits_int64_def is_int_def int_of_def on_ok_def)

section \<open>The reasoner\<close>

lemma length_symbolic_vector:
  "length (symbolic_vector r (fst (reason r fs q g))) = output_size r"
  by (simp add: reason_def symbolic_vector_def torch_zeros_def get_output_size_def
      torch_randn_def Let_def)

text \<open>
  C10. Whatever the facts and the query, the vector the forward pass takes from the
  reasoner's result has the reasoner's output size. A query other than \<open>classify\<close> and
  \<open>explain_classification\<close> does not fail: the result holds the facts, the query and an empty
  rule trace, the generator is untouched, and the vector is the zero vector.
\<close>

theorem reasoner_vector_length:
  "length (symbolic_vector r (fst (reason r fs q g))) = output_size r \<and>
   (q \<noteq> ''classify'' \<and> q \<noteq> ''explain_classification'' \<longrightarrow>
      reason r fs q g =
        (\<lparr>facts = fs, query = q, rules_applied = [], features = None, steps = None,
          confidence = None\<rparr>, g) \<and>
      symbolic_vector r (fst (reason r fs q g)) = torch_zeros (output_size r))"
  by (simp add: reason_def symbolic_vector_def torch_zeros_def get_output_size_def
      torch_randn_def Let_def)

theorem reasoner_vector_length_witness:
  "length (symbolic_vector reasoner_0
      (fst (reason reasoner_0 [[(''features'', [1, 2::real])]] ''lookup'' zero_generator))) = 32 \<and>
   symbolic_vector reasoner_0
      (fst (reason reasoner_0 [[(''features'', [1, 2::real])]] ''lookup'' zero_generator)) =
     replicate 32 0"
  using reasoner_vector_length [of reasoner_0 "[[(''features'', [1, 2::real])]]" "''lookup''" zero_generator]
  by (simp add: reasoner_0_def torch_zeros_def reason_def symbolic_vector_def get_output_size_def)

section \<open>Attribute lookup and softmax\<close>

lemma self_attribute_eval: "self_attribute ''eval'' = Inl (AttributeError ''eval'')"
  by (simp add: self_attribute_def instance_namespace_def NeuroSymbolicClassifier_namespace_def
      BaseModel_namespace_def)

lemma is_trained_model_0: "is_trained model_0"
  by (simp add: model_0_def)

lemma sum_exp_nonneg: "0 \<le> sum_list (map exp (z::real list))"
  by (induction z) (auto intro: add_nonneg_nonneg)

lemma sum_exp_pos: "z \<noteq> [] \<Longrightarrow> 0 < sum_list (map exp (z::real list))"
proof (cases z)
  case Nil
  assume "z \<noteq> []"
  with Nil show ?thesis by simp
next
  case (Cons a zs)
  have "0 < exp a + sum_list (map exp zs)"
    using sum_exp_nonneg [of zs] exp_gt_zero [of a] by linarith
  with Cons show ?thesis by simp
qed

lemma sum_list_softmax: "z \<noteq> [] \<Longrightarrow> sum_list (softmax z) = 1"
proof -
  assume "z \<noteq> []"
  then have pos: "0 < sum_list (map exp z)" by (rule sum_exp_pos)
  have "sum_list (map (\<lambda>x. exp x / c) z) = sum_list (map exp z) / c" for c :: real
    by (induction z) (auto simp: add_divide_distrib)
  then show ?thesis using pos by (simp add: softmax_def)
qed

section \<open>predict against predict\_proba\<close>

lemma softmax_Nil_iff: "softmax z = [] \<longleftrightarrow> z = []"
  by (simp add: softmax_def)

lemma symbolic_rows_X_0:
  "symbolic_rows reasoner_0 X_0 g = ([map g [0..<32]], advance 32 g)"
  by (simp add: X_0_def reason_def reasoner_0_def torch_randn_def symbolic_vector_def
      del: upt_rec_numeral upt_Suc)

lemma forward_pass_model_0:
  "forward_pass model_0 X_0 g = Inr ([[g 0, 0]], advance 32 g)"
  unfolding forward_pass_def
  apply (simp add: model_0_def symbolic_rows_X_0 del: upt_rec_numeral upt_Suc)
  apply (simp add: encoder_0_def X_0_def on_ok_def torch_stack_def torch_cat_dim1_def head_0_def)
  done

lemma predict_block_model_0:
  "predict_block model_0 X_0 g = Inr ([if g 0 < 0 then 1 else 0], advance 32 g)"
  by (simp add: predict_block_def forward_pass_model_0 on_ok_def torch_argmax_dim1_def)

text \<open>
  The docstring of \<open>SimpleReasoner.reason\<close> promises rule-based reasoning, and
  \<open>BaseReasoner.reason\<close> reasoning on the given facts. The vector of a \<open>classify\<close> query
  does not depend on the facts: it is the next numbers of torch's generator.
\<close>

lemma reason_ignores_facts:
  "features (fst (reason r fs ''classify'' g)) = Some (map g [0..<output_size r]) \<and>
   snd (reason r fs ''classify'' g) = advance (output_size r) g"
  by (simp add: reason_def torch_randn_def Let_def)

text \<open>
  So the block of \<open>predict\<close> is not repeatable: two runs in a row on the same object and the
  same input, the second from the generator the first leaves, choose class 0 and class 1.
\<close>

lemma predict_block_not_repeatable:
  "predict_block model_0 X_0 flip_generator = Inr ([0], advance 32 flip_generator) \<and>
   predict_block model_0 X_0 (advance 32 flip_generator) =
     Inr ([1], advance 32 (advance 32 flip_generator))"
  by (simp add: predict_block_model_0 flip_generator_def advance_def)

text \<open>
  C3. The specification promises that the labels of \<open>predict\<close> are the row-wise argmax of
  the matrix of \<open>predict_proba\<close>. On a trained object both raise \<open>AttributeError\<close> at
  \<^verbatim>\<open>self.eval()\<close>: there are no labels and no matrix to compare.
\<close>

theorem predict_and_predict_proba_raise:
  "predict model_0 X_0 flip_generator = Inl (AttributeError ''eval'') \<and>
   predict_proba model_0 X_0 flip_generator = Inl (AttributeError ''eval'')"
  by (simp add: predict_def predict_proba_def is_trained_model_0 self_attribute_eval on_ok_def)

theorem predict_and_predict_proba_raise_witness:
  "isl (predict model_0 X_0 flip_generator) \<and> isl (predict_proba model_0 X_0 flip_generator)"
  using predict_and_predict_proba_raise by simp

section \<open>The untrained object, probabilities and robustness\<close>

text \<open>
  C7. On an object whose \<open>is_trained\<close> flag is false, \<open>predict\<close>, \<open>explain\<close> and \<open>evaluate\<close>
  raise the \<open>ValueError\<close> that says the model must be trained (the specification's
  \<open>NotTrainedError\<close>), and so return nothing.
\<close>

theorem untrained_model_raises:
  assumes "\<not> is_trained m"
  shows "predict m X g = Inl (ValueError ''Model must be trained before making predictions'') \<and>
         explain ad m X g = Inl (ValueError ''Model must be trained before providing explanations'') \<and>
         evaluate sk m X y ng g = Inl (ValueError ''Model must be trained before making predictions'')"
  using assms by (simp add: predict_def explain_def evaluate_def on_ok_def)

theorem untrained_model_raises_witness:
  "predict model_untrained X_0 zero_generator =
     Inl (ValueError ''Model must be trained before making predictions'') \<and>
   explain autograd_0 model_untrained X_0 zero_generator =
     Inl (ValueError ''Model must be trained before providing explanations'') \<and>
   evaluate sklearn_0 model_untrained X_0 [0] zero_generator zero_generator =
     Inl (ValueError ''Model must be trained before making predictions'')"
proof -
  have "\<not> is_trained model_untrained"
    by (simp add: model_untrained_def)
  then show ?thesis
    by (rule untrained_model_raises)
qed

text \<open>
  On every trained object the four operations stop at \<^verbatim>\<open>self.eval()\<close>.
\<close>

lemma trained_model_raises:
  assumes "is_trained m"
  shows "predict m X g = Inl (AttributeError ''eval'')"
    and "predict_proba m X g = Inl (AttributeError ''eval'')"
    and "explain ad m X g = Inl (AttributeError ''eval'')"
    and "evaluate sk m X y ng g = Inl (AttributeError ''eval'')"
  using assms
  by (simp_all add: predict_def predict_proba_def explain_def evaluate_def
      get_neural_importance_def self_attribute_eval on_ok_def)

text \<open>
  C8. The specification promises a matrix whose rows sum to one. On a trained object
  \<open>predict_proba\<close> raises \<open>AttributeError\<close> at \<^verbatim>\<open>self.eval()\<close>: the class derives from
  \<open>BaseModel\<close>, which has no method \<open>eval\<close>. No matrix is returned.
\<close>

theorem predict_proba_trained_raises:
  "predict_proba model_0 X_0 zero_generator = Inl (AttributeError ''eval'')"
  by (simp add: predict_proba_def is_trained_model_0 self_attribute_eval on_ok_def)

theorem predict_proba_trained_raises_witness:
  "isl (predict_proba model_0 X_0 zero_generator)"
  using predict_proba_trained_raises by simp

text \<open>
  The block behind that call does what the specification says: its rows sum to one (here
  exactly, in float32 up to rounding).
\<close>

lemma predict_proba_block_rows:
  assumes "predict_proba_block m X g = Inr (P, g1)" and "row \<in> set P" and "row \<noteq> []"
  shows "sum_list row = 1"
proof -
  from assms(1) obtain outputs where "P = map softmax outputs"
    by (auto simp: predict_proba_block_def on_ok_def torch_softmax_dim1_def split: sum.splits)
  with assms(2) obtain z where "row = softmax z" by auto
  with assms(3) show ?thesis by (simp add: sum_list_softmax softmax_Nil_iff)
qed

lemma sum_agree_bounds:
  "0 \<le> sum_list (map2 (\<lambda>x y. if x = y then 1 else (0::real)) a b) \<and>
   sum_list (map2 (\<lambda>x y. if x = y then 1 else (0::real)) a b) \<le> real (min (length a) (length b))"
proof (induction a arbitrary: b)
  case Nil
  then show ?case by simp
next
  case (Cons x a)
  then show ?case
  proof (cases b)
    case Nil
    then show ?thesis by simp
  next
    case (Cons y b')
    with Cons.IH [of b'] show ?thesis by auto
  qed
qed

lemma sum_agree_full:
  "length a = length b \<Longrightarrow>
   (sum_list (map2 (\<lambda>x y. if x = y then 1 else (0::real)) a b) = real (length a)) = (a = b)"
proof (induction a arbitrary: b)
  case Nil
  then show ?case by simp
next
  case (Cons x a)
  then obtain y b' where b: "b = y # b'" and len: "length a = length b'"
    by (cases b) auto
  have bd: "sum_list (map2 (\<lambda>x y. if x = y then 1 else (0::real)) a b') \<le> real (length a)"
    using sum_agree_bounds [of a b'] len by simp
  show ?case
    using Cons.IH [OF len] bd by (auto simp: b)
qed

lemma np_mean_equal_bounds:
  assumes "length a = length b" and "a \<noteq> []"
  shows "\<exists>v. np_mean_equal a b = Inr (Finite v) \<and> 0 \<le> v \<and> v \<le> 1 \<and> (v = 1) = (a = b)"
proof -
  let ?s = "sum_list (map2 (\<lambda>x y. if x = y then 1 else (0::real)) a b)"
  have n: "0 < real (length a)" using assms(2) by simp
  have nonempty: "map2 (\<lambda>x y. if x = y then 1 else (0::real)) a b \<noteq> []"
    using assms by (cases a; cases b) auto
  have len: "length (map2 (\<lambda>x y. if x = y then 1 else (0::real)) a b) = length a"
    using assms(1) by simp
  have eq: "np_mean_equal a b = Inr (Finite (?s / real (length a)))"
    using assms(1) nonempty len by (simp add: np_mean_equal_def np_mean_def)
  have b0: "0 \<le> ?s" and b1: "?s \<le> real (length a)"
    using sum_agree_bounds [of a b] assms(1) by simp_all
  have "(?s / real (length a) = 1) = (a = b)"
    using sum_agree_full [OF assms(1)] n by (auto simp add: divide_eq_1_iff)
  moreover have "0 \<le> ?s / real (length a)" using b0 by simp
  moreover have "?s / real (length a) \<le> 1" using b1 n by simp
  ultimately show ?thesis using eq by blast
qed

lemma sum_agree_count:
  "sum_list (map2 (\<lambda>x y. if x = y then 1 else (0::real)) a b) =
     real (length (filter (\<lambda>(x, y). x = y) (zip a b)))"
proof (induction a arbitrary: b)
  case Nil
  then show ?case by simp
next
  case (Cons x a)
  then show ?case by (cases b) auto
qed

lemma np_mean_equal_fraction:
  assumes "length a = length b" and "a \<noteq> []"
  shows "np_mean_equal a b =
     Inr (Finite (real (length (filter (\<lambda>(x, y). x = y) (zip a b))) / real (length a)))"
proof -
  have "map2 (\<lambda>x y. if x = y then 1 else (0::real)) a b \<noteq> []"
    using assms by (cases a; cases b) auto
  moreover have "length (map2 (\<lambda>x y. if x = y then 1 else (0::real)) a b) = length a"
    using assms(1) by simp
  ultimately show ?thesis
    using assms(1) by (simp add: np_mean_equal_def np_mean_def sum_agree_count)
qed

text \<open>
  The lemmas above say what \<^verbatim>\<open>np.mean(original_preds == perturbed_preds)\<close> is for two
  vectors of labels of the same length: the number of positions where they agree divided
  by the length, a number between 0 and 1 that is 1 exactly when the vectors are equal.
\<close>

lemma noise_X_0_zero: "np_random_normal 0 s X_0 zero_generator = ([[0, 0, 0, 0]], zero_generator)"
  by (simp add: X_0_def zero_generator_def advance_def)

lemma tensor_add_X_0: "tensor_add X_0 [[0, 0, 0, 0]] = X_0"
  by (simp add: tensor_add_def X_0_def)

text \<open>
  Behind the call of \<open>predict\<close>, a noise that is zero everywhere still gives the score 0 on
  the sample object: the two predictions take different random vectors from the reasoner.
\<close>

lemma robustness_block_zero_noise:
  "fst (np_random_normal 0 0.01 X_0 zero_generator) = [[0, 0, 0, 0]] \<and>
   map_sum id fst (robustness_score_with (predict_block model_0) X_0 zero_generator flip_generator) =
     Inr (Finite 0)"
  by (simp add: robustness_score_with_def noise_X_0_zero tensor_add_X_0 on_ok_def
      predict_block_model_0 np_mean_equal_def np_mean_def flip_generator_def advance_def)

text \<open>As the code is written, no object and no input give a score.\<close>

lemma robustness_score_always_raises:
  "isl (calculate_robustness_score m X y ng g)"
  by (cases "is_trained m")
    (simp_all add: calculate_robustness_score_def robustness_score_with_def predict_def
      self_attribute_eval on_ok_def split: prod.splits)

text \<open>
  C9. The specification promises a robustness score between 0 and 1 that is 1 at zero
  perturbation. On a trained object \<open>_calculate_robustness_score\<close> raises \<open>AttributeError\<close>
  in its first call of \<open>predict\<close>, and \<open>evaluate\<close> raises it before it gets there: no score is
  produced.
\<close>

theorem robustness_score_never_produced:
  "calculate_robustness_score model_0 X_0 [0] zero_generator flip_generator =
     Inl (AttributeError ''eval'') \<and>
   evaluate sklearn_0 model_0 X_0 [0] zero_generator flip_generator =
     Inl (AttributeError ''eval'')"
  by (simp add: calculate_robustness_score_def robustness_score_with_def evaluate_def predict_def
      is_trained_model_0 self_attribute_eval on_ok_def split: prod.splits)

theorem robustness_score_never_produced_witness:
  "isl (calculate_robustness_score model_0 X_0 [0] zero_generator flip_generator) \<and>
   isl (evaluate sklearn_0 model_0 X_0 [0] zero_generator flip_generator)"
  using robustness_score_never_produced by simp

section \<open>fit and the training loop\<close>

lemma self_attribute_parameters:
  "self_attribute ''parameters'' = Inl (AttributeError ''parameters'')"
  by (simp add: self_attribute_def instance_namespace_def NeuroSymbolicClassifier_namespace_def
      BaseModel_namespace_def)

lemma fit_raises: "fit T m X y g = Inl (AttributeError ''parameters'')"
  by (simp add: fit_def self_attribute_parameters on_ok_def)

lemma forward_pass_input_size:
  "forward_pass (m\<lparr>input_size := v\<rparr>) X g = forward_pass m X g"
  by (simp add: forward_pass_def cong del: if_weak_cong)

lemma with_input_size_simps:
  "with_input_size v (Inl e) = Inl e"
  "with_input_size v (Inr (m, rest)) = Inr (m\<lparr>input_size := v\<rparr>, rest)"
  by (simp_all add: with_input_size_def)

lemma train_batches_input_size:
  "train_batches T (m\<lparr>input_size := v\<rparr>) opt batches g acc =
     with_input_size v (train_batches T m opt batches g acc)"
proof (induction batches arbitrary: m opt g acc)
  case Nil
  then show ?case by (simp add: with_input_size_simps)
next
  case (Cons batch rest)
  have swap: "\<And>net1 il1. (m\<lparr>input_size := v\<rparr>)\<lparr>neural_network := net1, integration_layer := il1\<rparr> =
      (m\<lparr>neural_network := net1, integration_layer := il1\<rparr>)\<lparr>input_size := v\<rparr>"
    by simp
  show ?case
    unfolding train_batches.simps forward_pass_input_size
    by (simp only: model.simps swap Cons.IH with_input_size_simps
        split: sum.splits prod.splits) (auto simp: with_input_size_simps)
qed

lemma train_epochs_input_size:
  "train_epochs T (m\<lparr>input_size := v\<rparr>) opt bs samples es g =
     with_input_size v (train_epochs T m opt bs samples es g)"
proof (induction es arbitrary: m opt g)
  case Nil
  then show ?case by (simp add: with_input_size_simps)
next
  case (Cons epoch rest)
  show ?case
    unfolding train_epochs.simps train_batches_input_size
    by (auto simp: with_input_size_simps Cons.IH split: sum.splits prod.splits)
qed

lemma training_block_input_size:
  "training_block T (m\<lparr>input_size := v\<rparr>) opt bs samples epochs g =
     with_input_size v (training_block T m opt bs samples epochs g)"
  by (auto simp: training_block_def on_ok_def train_epochs_input_size with_input_size_simps
      split: sum.splits)

lemma train_batches_rejected:
  "neural_network m (fst batch) g = Inl e \<Longrightarrow>
   train_batches T m opt (batch # rest) g acc = Inl e"
  by (simp add: forward_pass_def on_ok_def)

lemma chunks_nonempty: "0 < n \<Longrightarrow> xs \<noteq> [] \<Longrightarrow> chunks n xs \<noteq> []"
  by (subst chunks.simps) simp

lemma chunks_members:
  "0 < n \<Longrightarrow> c \<in> set (chunks n xs) \<Longrightarrow> c \<noteq> [] \<and> set c \<subseteq> set xs"
proof (induction n xs rule: chunks.induct)
  case (1 n xs)
  show ?case
  proof (cases "xs = []")
    case True
    with 1(3) show ?thesis by (subst (asm) chunks.simps) simp
  next
    case False
    with 1(2,3) have "c = take n xs \<or> c \<in> set (chunks n (drop n xs))"
      by (subst (asm) chunks.simps) auto
    then show ?thesis
    proof
      assume "c = take n xs"
      with False 1(2) show ?thesis by (auto dest: in_set_takeD)
    next
      assume "c \<in> set (chunks n (drop n xs))"
      with 1(1) [OF _ 1(2)] False 1(2) have "c \<noteq> [] \<and> set c \<subseteq> set (drop n xs)" by simp
      then show ?thesis by (auto dest: in_set_dropD)
    qed
  qed
qed

lemma length_chunks: "0 < n \<Longrightarrow> length (chunks n xs) = (length xs + n - 1) div n"
proof (induction n xs rule: chunks.induct)
  case (1 n xs)
  show ?case
  proof (cases "xs = []")
    case True
    with 1(2) show ?thesis by (subst chunks.simps) simp
  next
    case False
    have ih: "length (chunks n (drop n xs)) = (length (drop n xs) + n - 1) div n"
      using 1(1) [OF _ 1(2)] False 1(2) by simp
    have len: "0 < length xs" using False by simp
    have "Suc ((length xs - n + n - 1) div n) = (length xs + n - 1) div n"
    proof (cases "n \<le> length xs")
      case True
      have e1: "length xs + n - 1 = (length xs - 1) + n" using len by arith
      have e2: "length xs - n + n - 1 = length xs - 1" using True by simp
      have "(length xs - 1 + n) div n = Suc ((length xs - 1) div n)"
        using 1(2) by simp
      then show ?thesis unfolding e1 e2 by simp
    next
      case False
      then have a: "length xs - n + n - 1 = n - 1" by simp
      have b: "(n - 1) div n = 0" using 1(2) by simp
      have e1: "length xs + n - 1 = (length xs - 1) + n" using len by arith
      have z: "(length xs - 1) div n = 0" using False by simp
      have "(length xs - 1 + n) div n = Suc ((length xs - 1) div n)"
        using 1(2) by simp
      with z have "(length xs + n - 1) div n = 1" unfolding e1 by simp
      then show ?thesis unfolding a b by simp
    qed
    with ih False 1(2) show ?thesis by (subst chunks.simps) simp
  qed
qed

lemma train_batches_steps:
  assumes step: "\<forall>m' opt' batch loss. I m' \<longrightarrow>
      I (case optimizer_step T opt' (neural_network m', integration_layer m') batch loss of
           (opt1, net1, il1) \<Rightarrow> m'\<lparr>neural_network := net1, integration_layer := il1\<rparr>)"
    and run: "\<forall>m' b g'. I m' \<and> b \<noteq> [] \<and> set b \<subseteq> S \<longrightarrow>
      (\<exists>outputs g'' loss. forward_pass m' (map fst b) g' = Inr (outputs, g'') \<and>
         criterion T outputs (map snd b) = Inr loss)"
    and count: "\<forall>opt' w b l. c (fst (optimizer_step T opt' w b l)) = Suc (c opt')"
  shows "I m \<Longrightarrow> \<forall>b \<in> set cs. b \<noteq> [] \<and> set b \<subseteq> S \<Longrightarrow>
    \<exists>m' opt' g' acc'.
      train_batches T m opt (map (\<lambda>c. (map fst c, map snd c)) cs) g acc = Inr (m', opt', g', acc') \<and>
      I m' \<and> c opt' = c opt + length cs"
proof (induction cs arbitrary: m opt g acc)
  case Nil
  then show ?case by simp
next
  case (Cons b rest)
  from Cons.prems have b: "b \<noteq> []" "set b \<subseteq> S" by simp_all
  from run Cons.prems(1) b obtain outputs g1 loss where
    f: "forward_pass m (map fst b) g = Inr (outputs, g1)" and
    l: "criterion T outputs (map snd b) = Inr loss" by blast
  obtain opt1 net1 il1 where
    st: "optimizer_step T opt (neural_network m, integration_layer m) (map fst b, map snd b) loss =
           (opt1, net1, il1)"
    by (cases "optimizer_step T opt (neural_network m, integration_layer m) (map fst b, map snd b) loss")
  from step Cons.prems(1) have
    "I (case optimizer_step T opt (neural_network m, integration_layer m) (map fst b, map snd b) loss of
          (opt1, net1, il1) \<Rightarrow> m\<lparr>neural_network := net1, integration_layer := il1\<rparr>)"
    by blast
  with st have I1: "I (m\<lparr>neural_network := net1, integration_layer := il1\<rparr>)"
    by simp
  from count st have c1: "c opt1 = Suc (c opt)"
    by (metis fst_conv)
  have rest: "\<forall>b \<in> set rest. b \<noteq> [] \<and> set b \<subseteq> S"
    using Cons.prems(2) by simp
  from Cons.IH [OF I1 rest] obtain m' opt' g' acc' where
    "train_batches T (m\<lparr>neural_network := net1, integration_layer := il1\<rparr>) opt1
       (map (\<lambda>c. (map fst c, map snd c)) rest) g1 (float_add acc loss) = Inr (m', opt', g', acc')"
    and "I m'" and "c opt' = c opt1 + length rest"
    by blast
  with f l st c1 show ?case by simp
qed

lemma train_epochs_steps:
  assumes step: "\<forall>m' opt' batch loss. I m' \<longrightarrow>
      I (case optimizer_step T opt' (neural_network m', integration_layer m') batch loss of
           (opt1, net1, il1) \<Rightarrow> m'\<lparr>neural_network := net1, integration_layer := il1\<rparr>)"
    and run: "\<forall>m' b g'. I m' \<and> b \<noteq> [] \<and> set b \<subseteq> set samples \<longrightarrow>
      (\<exists>outputs g'' loss. forward_pass m' (map fst b) g' = Inr (outputs, g'') \<and>
         criterion T outputs (map snd b) = Inr loss)"
    and count: "\<forall>opt' w b l. c (fst (optimizer_step T opt' w b l)) = Suc (c opt')"
    and shuf: "\<forall>g'. length (fst (shuffle T samples g')) = length samples \<and>
      set (fst (shuffle T samples g')) \<subseteq> set samples"
    and bs: "0 < bs" and ne: "samples \<noteq> []"
  shows "I m \<Longrightarrow> \<exists>m' opt' g'. train_epochs T m opt bs samples es g = Inr (m', opt', g') \<and> I m' \<and>
    c opt' = c opt + length es * ((length samples + bs - 1) div bs)"
proof (induction es arbitrary: m opt g)
  case Nil
  then show ?case by simp
next
  case (Cons epoch rest)
  obtain shuffled g1 where sh: "shuffle T samples g = (shuffled, g1)"
    by (cases "shuffle T samples g")
  with shuf have len: "length shuffled = length samples" and sub: "set shuffled \<subseteq> set samples"
    by (metis fst_conv)+
  from len ne have sne: "shuffled \<noteq> []" by auto
  have ok: "\<forall>b \<in> set (chunks bs shuffled). b \<noteq> [] \<and> set b \<subseteq> set samples"
    using chunks_members [OF bs] sub by blast
  from train_batches_steps [OF step run count Cons.prems ok]
  obtain m1 opt1 g2 acc1 where
    tb: "train_batches T m opt (map (\<lambda>c. (map fst c, map snd c)) (chunks bs shuffled)) g1 (Finite 0) =
           Inr (m1, opt1, g2, acc1)"
    and I1: "I m1" and c1: "c opt1 = c opt + length (chunks bs shuffled)"
    by blast
  have nz: "chunks bs shuffled \<noteq> []" using chunks_nonempty [OF bs sne] .
  from Cons.IH [OF I1] obtain m' opt' g' where
    te: "train_epochs T m1 opt1 bs samples rest g2 = Inr (m', opt', g')" and I': "I m'"
    and c': "c opt' = c opt1 + length rest * ((length samples + bs - 1) div bs)"
    by blast
  have "c opt' = c opt + length (epoch # rest) * ((length samples + bs - 1) div bs)"
    using c' c1 length_chunks [OF bs, of shuffled] len by simp
  with sh tb nz te I' show ?case by simp
qed

text \<open>
  C5, amended: the training loop has no test of the loss. Whenever the forward pass and the
  loss function accept the batches and the loader hands out the samples, the loop takes an
  optimizer step on every batch of every epoch and ends with \<open>is_trained\<close> set, whatever
  the values of the loss are, finite or not. The steps are counted by \<open>c\<close>, any function of
  the optimizer state that every step raises by one (as the step counter of Adam), and the
  count after the loop is the number of epochs times the number of batches. (\<open>I\<close> is any
  property of the object that the optimizer steps keep.) There is no failed state and no
  \<open>TrainingFailure\<close>.
\<close>

theorem training_steps_whatever_the_loss:
  assumes step: "\<forall>m' opt' batch loss. I m' \<longrightarrow>
      I (case optimizer_step T opt' (neural_network m', integration_layer m') batch loss of
           (opt1, net1, il1) \<Rightarrow> m'\<lparr>neural_network := net1, integration_layer := il1\<rparr>)"
    and run: "\<forall>m' b g'. I m' \<and> b \<noteq> [] \<and> set b \<subseteq> set samples \<longrightarrow>
      (\<exists>outputs g'' loss. forward_pass m' (map fst b) g' = Inr (outputs, g'') \<and>
         criterion T outputs (map snd b) = Inr loss)"
    and count: "\<forall>opt' w b l. c (fst (optimizer_step T opt' w b l)) = Suc (c opt')"
    and shuf: "\<forall>g'. length (fst (shuffle T samples g')) = length samples \<and>
      set (fst (shuffle T samples g')) \<subseteq> set samples"
    and bs: "0 < bs" and ne: "samples \<noteq> []" and inv: "I m"
  shows "\<exists>m' opt' g'. training_block T m opt bs samples (PInt n) g = Inr (m', opt', g') \<and>
           is_trained m' \<and> c opt' = c opt + nat n * ((length samples + bs - 1) div bs)"
proof -
  from train_epochs_steps [OF step run count shuf bs ne inv, of opt "[0..<nat n]" g]
  obtain m1 opt1 g1 where "train_epochs T m opt bs samples [0..<nat n] g = Inr (m1, opt1, g1)"
    and "c opt1 = c opt + length [0..<nat n] * ((length samples + bs - 1) div bs)"
    by blast
  then show ?thesis
    by (simp add: training_block_def py_range_def on_ok_def)
qed

lemma symbolic_rows_shape:
  "length (fst (symbolic_rows r X g)) = length X \<and>
   (\<forall>v \<in> set (fst (symbolic_rows r X g)). length v = output_size r)"
proof (induction X arbitrary: g)
  case Nil
  then show ?case by simp
next
  case (Cons x X)
  obtain res g1 where r: "reason r [[(''features'', x)]] ''classify'' g = (res, g1)"
    by (cases "reason r [[(''features'', x)]] ''classify'' g")
  obtain vs g2 where s: "symbolic_rows r X g1 = (vs, g2)"
    by (cases "symbolic_rows r X g1")
  have "length (symbolic_vector r (fst (reason r [[(''features'', x)]] ''classify'' g))) = output_size r"
    by (rule length_symbolic_vector)
  with r have "length (symbolic_vector r res) = output_size r" by simp
  with Cons.IH [of g1] r s show ?case by simp
qed

lemma chunks_single: "chunks (Suc 0) [x] = [[x]]"
  by (simp add: chunks.simps)

lemma forward_pass_model_big_rows:
  assumes "bx \<noteq> []" and "set bx \<subseteq> {[0, 0, 0, 0]}"
  shows "\<exists>g''. forward_pass model_big bx g' =
           Inr (replicate (length bx) [big_logit, - big_logit], g'')"
proof -
  obtain vs g2 where s: "symbolic_rows reasoner_0 bx g' = (vs, g2)"
    by (cases "symbolic_rows reasoner_0 bx g'")
  from symbolic_rows_shape [of reasoner_0 bx g'] s
  have len: "length vs = length bx" and each: "\<forall>v \<in> set vs. length v = 32"
    by (simp_all add: reasoner_0_def)
  from assms(2) have enc: "\<not> list_ex (\<lambda>row. length row \<noteq> 4) bx"
    by (auto simp: list_ex_iff)
  from len assms(1) have ne: "vs \<noteq> []" by auto
  then have "hd vs \<in> set vs" by simp
  with each have "\<not> list_ex (\<lambda>v. length v \<noteq> length (hd vs)) vs"
    by (auto simp: list_ex_iff)
  with ne have stack: "torch_stack vs = Inr vs" by (simp add: torch_stack_def)
  let ?C = "map2 (@) (map (\<lambda>row. [0, 0, 0, 0::real]) bx) vs"
  have cat: "torch_cat_dim1 (map (\<lambda>row. [0, 0, 0, 0]) bx) vs = Inr ?C"
    using len by (simp add: torch_cat_dim1_def)
  have "length (a @ b) = 36"
    if "(a, b) \<in> set (zip (map (\<lambda>row. [0, 0, 0, 0::real]) bx) vs)" for a b
  proof -
    from that have "a \<in> set (map (\<lambda>row. [0, 0, 0, 0::real]) bx)" and "b \<in> set vs"
      by (auto dest: set_zip_leftD set_zip_rightD)
    with each show ?thesis by auto
  qed
  then have "\<not> list_ex (\<lambda>row. length row \<noteq> 36) ?C"
    by (auto simp: list_ex_iff)
  moreover have "length ?C = length bx" using len by simp
  ultimately have head: "head_big ?C g2 =
      Inr (replicate (length bx) [big_logit, - big_logit], g2)"
    by (simp add: head_big_def map_replicate_const)
  have "forward_pass model_big bx g' =
      Inr (replicate (length bx) [big_logit, - big_logit], g2)"
    using enc s stack cat head
    by (simp add: forward_pass_def model_big_def model_untrained_def model_0_def encoder_0_def
        on_ok_def)
  then show ?thesis by blast
qed

lemma cross_entropy_f32_returns:
  assumes "b \<noteq> []" and "set b \<subseteq> {(x, 1)}"
  shows "\<exists>loss. cross_entropy_f32 (replicate (length b) [u, v]) (map snd b) = Inr loss"
proof -
  have "\<not> (k < 0 \<or> int (length z) \<le> k)"
    if "(z, k) \<in> set (zip (replicate (length b) [u, v]) (map snd b))" for z k
  proof -
    from that have "z \<in> set (replicate (length b) [u, v])" and "k \<in> set (map snd b)"
      by (auto dest: set_zip_leftD set_zip_rightD)
    with assms(2) have "z = [u, v]" and "k = 1" by auto
    then show ?thesis by simp
  qed
  then have "\<not> list_ex (\<lambda>(z, k). k < 0 \<or> int (length z) \<le> k)
      (zip (replicate (length b) [u, v]) (map snd b))"
    by (auto simp: list_ex_iff)
  with assms(1) show ?thesis
    by (simp add: cross_entropy_f32_def Let_def)
qed

lemma cross_entropy_overflow:
  "cross_entropy_f32 [[big_logit, - big_logit]] [1] = Inr NonFinite"
proof -
  have "exp big_logit < exp big_logit + exp (- big_logit)" by simp
  then have "ln (exp big_logit) < ln (exp big_logit + exp (- big_logit))"
    by (subst ln_less_cancel_iff) (simp_all add: add_pos_pos)
  then have big: "big_logit < ln (exp big_logit + exp (- big_logit))" by simp
  have "float32_max < 2 * big_logit" by (simp add: float32_max_def big_logit_def)
  with big have "float32_max < \<bar>ln (exp big_logit + exp (- big_logit)) - (- big_logit)\<bar>"
    by linarith
  then have "float32_max < \<bar>cross_entropy_row [big_logit, - big_logit] (nat 1)\<bar>"
    by (simp add: cross_entropy_row_def)
  then show ?thesis
    by (simp add: cross_entropy_f32_def Let_def)
qed

lemma forward_pass_model_big_X_0:
  "forward_pass model_big X_0 g = Inr ([[big_logit, - big_logit]], advance 32 g)"
  unfolding forward_pass_def
  apply (simp add: model_big_def model_untrained_def model_0_def symbolic_rows_X_0
      del: upt_rec_numeral upt_Suc)
  apply (simp add: encoder_0_def X_0_def on_ok_def torch_stack_def torch_cat_dim1_def head_big_def)
  done

lemma train_batches_f32_big:
  "train_batches trainer_f32 model_big opt [([[0, 0, 0, 0]], [1])] g (Finite 0) =
     Inr (model_big, Suc opt, advance 32 g, NonFinite)"
proof -
  have c: "criterion trainer_f32 = cross_entropy_f32" by (simp add: trainer_f32_def)
  have st: "optimizer_step trainer_f32 opt w b l = (Suc opt, w)" for w b l
    by (simp add: trainer_f32_def)
  show ?thesis
    by (simp add: forward_pass_model_big_X_0 [unfolded X_0_def] c cross_entropy_overflow st
        float_add_def)
qed

text \<open>
  C5, as stated: a loss that is not finite aborts the training. The sample object answers
  every row with the logits \<open>(big_logit, - big_logit)\<close>; for the label 1 the cross entropy is
  beyond the largest float32, so the loss is infinite. The loop of one batch then sums the
  losses to a value that is not finite, and the training of two epochs still takes both
  optimizer steps and returns a trained object. (\<open>fit\<close> itself raises at
  \<^verbatim>\<open>self.parameters()\<close> before it reaches the loop.)
\<close>

theorem nonfinite_loss_training_continues:
  "cross_entropy_f32 [[big_logit, - big_logit]] [1] = Inr NonFinite \<and>
   map_sum id (snd \<circ> snd \<circ> snd)
     (train_batches trainer_f32 model_big 0 [([[0, 0, 0, 0]], [1])] flip_generator (Finite 0)) =
     Inr NonFinite \<and>
   map_sum id (is_trained \<circ> fst)
     (training_block trainer_f32 model_big 0 1 [([0, 0, 0, 0], 1)] (PInt 2) flip_generator) =
     Inr True \<and>
   map_sum id (fst \<circ> snd)
     (training_block trainer_f32 model_big 0 1 [([0, 0, 0, 0], 1)] (PInt 2) flip_generator) =
     Inr 2"
proof -
  have sh: "shuffle trainer_f32 s g = (s, g)" for s g
    by (simp add: trainer_f32_def)
  have e: "train_epochs trainer_f32 model_big 0 1 [([0, 0, 0, 0], 1)] [0, 1] flip_generator =
      Inr (model_big, 2, advance 32 (advance 32 flip_generator))"
    by (simp add: sh chunks_single train_batches_f32_big del: train_batches.simps)
  have r: "py_range (PInt 2) = Inr [0, 1]"
    by (simp add: py_range_def upt_rec)
  have a: "train_batches trainer_f32 model_big 0 [([[0, 0, 0, 0]], [1])] flip_generator (Finite 0) =
      Inr (model_big, Suc 0, advance 32 flip_generator, NonFinite)"
    by (rule train_batches_f32_big)
  have b: "training_block trainer_f32 model_big 0 1 [([0, 0, 0, 0], 1)] (PInt 2) flip_generator =
      Inr (model_big\<lparr>is_trained := True\<rparr>, 2, advance 32 (advance 32 flip_generator))"
    unfolding training_block_def r on_ok_Inr e by simp
  show ?thesis
    unfolding a b cross_entropy_overflow by simp
qed

theorem training_steps_whatever_the_loss_witness:
  "\<exists>m' opt' g'. training_block trainer_f32 model_big 0 1 [([0, 0, 0, 0], 1)] (PInt 2)
       flip_generator = Inr (m', opt', g') \<and> is_trained m' \<and> opt' = 2"
proof -
  have step: "\<forall>m' opt' batch loss. m' = model_big \<longrightarrow>
      (case optimizer_step trainer_f32 opt' (neural_network m', integration_layer m') batch loss of
         (opt1, net1, il1) \<Rightarrow> m'\<lparr>neural_network := net1, integration_layer := il1\<rparr>) = model_big"
    by (simp add: trainer_f32_def)
  have run: "\<forall>m' b g'. m' = model_big \<and> b \<noteq> [] \<and> set b \<subseteq> set [([0, 0, 0, 0], 1)] \<longrightarrow>
      (\<exists>outputs g'' loss. forward_pass m' (map fst b) g' = Inr (outputs, g'') \<and>
         criterion trainer_f32 outputs (map snd b) = Inr loss)"
  proof (intro allI impI)
    fix m' :: "callable model" and b :: "(real list \<times> int) list" and g' :: generator
    assume h: "m' = model_big \<and> b \<noteq> [] \<and> set b \<subseteq> set [([0, 0, 0, 0], 1)]"
    then have b: "b \<noteq> []" "set b \<subseteq> {([0, 0, 0, 0], 1)}" by simp_all
    then have "map fst b \<noteq> []" and "set (map fst b) \<subseteq> {[0, 0, 0, 0]}" by auto
    from forward_pass_model_big_rows [OF this] obtain g'' where
      f: "forward_pass model_big (map fst b) g' =
            Inr (replicate (length b) [big_logit, - big_logit], g'')"
      by auto
    from cross_entropy_f32_returns [OF b] obtain loss where
      "cross_entropy_f32 (replicate (length b) [big_logit, - big_logit]) (map snd b) = Inr loss"
      by blast
    with f h show "\<exists>outputs g'' loss. forward_pass m' (map fst b) g' = Inr (outputs, g'') \<and>
         criterion trainer_f32 outputs (map snd b) = Inr loss"
      by (auto simp: trainer_f32_def)
  qed
  have count: "\<forall>opt' w b l. id (fst (optimizer_step trainer_f32 opt' w b l)) = Suc (id opt')"
    by (simp add: trainer_f32_def)
  have shuf: "\<forall>g'. length (fst (shuffle trainer_f32 [([0, 0, 0, 0], 1)] g')) =
        length [([0, 0, 0, 0::real], 1::int)] \<and>
      set (fst (shuffle trainer_f32 [([0, 0, 0, 0], 1)] g')) \<subseteq> set [([0, 0, 0, 0], 1)]"
    by (simp add: trainer_f32_def)
  from training_steps_whatever_the_loss [where I = "\<lambda>m. m = model_big" and c = id
      and T = trainer_f32 and samples = "[([0, 0, 0, 0], 1)]" and bs = 1 and m = model_big
      and opt = 0 and n = 2 and g = flip_generator, OF step run count shuf]
  show ?thesis by (simp add: numeral_2_eq_2)
qed

text \<open>
  C6, amended: \<open>fit\<close> does not compare the width of the input with the configured input
  dimension. What \<open>fit\<close> and its training loop return or raise is the same whatever the
  attribute \<open>input_size\<close> holds; and when the encoder rejects the first batch, its exception
  leaves the loop before any optimizer step.
\<close>

theorem fit_ignores_input_size:
  "fit T (m\<lparr>input_size := v\<rparr>) X y g = with_input_size v (fit T m X y g) \<and>
   training_block T (m\<lparr>input_size := v\<rparr>) opt bs samples epochs g =
     with_input_size v (training_block T m opt bs samples epochs g) \<and>
   (neural_network m (fst batch) g = Inl e \<longrightarrow>
      train_batches T m opt (batch # rest) g acc = Inl e)"
proof (intro conjI impI)
  show "fit T (m\<lparr>input_size := v\<rparr>) X y g = with_input_size v (fit T m X y g)"
    by (simp add: fit_raises with_input_size_simps)
  show "training_block T (m\<lparr>input_size := v\<rparr>) opt bs samples epochs g =
      with_input_size v (training_block T m opt bs samples epochs g)"
    by (rule training_block_input_size)
  show "train_batches T m opt (batch # rest) g acc = Inl e"
    if "neural_network m (fst batch) g = Inl e"
    using that by (rule train_batches_rejected)
qed

theorem fit_ignores_input_size_witness:
  "training_block trainer_nan (model_0\<lparr>input_size := PInt 3\<rparr>) 0 1 [([0, 0, 0], 0)] (PInt 1)
     zero_generator = Inl RuntimeError \<and>
   train_batches trainer_nan model_0 0 [(X_narrow, [0])] zero_generator (Finite 0) = Inl RuntimeError"
proof -
  have rej: "neural_network model_0 X_narrow zero_generator = Inl RuntimeError"
    by (simp add: model_0_def encoder_0_def X_narrow_def)
  note t = fit_ignores_input_size [where T = trainer_nan and m = model_0 and v = "PInt 3"
      and X = X_narrow and y = "[0]" and g = zero_generator and opt = 0 and bs = 1
      and samples = "[([0, 0, 0], 0)]" and epochs = "PInt 1" and batch = "(X_narrow, [0])"
      and e = RuntimeError and rest = "[]" and acc = "Finite 0"]
  from t rej have b: "train_batches trainer_nan model_0 0 [(X_narrow, [0])] zero_generator (Finite 0) =
      Inl RuntimeError"
    by simp
  have "[0..<nat 1] = [0]" by simp
  then have "training_block trainer_nan model_0 0 1 [([0, 0, 0], 0)] (PInt 1) zero_generator =
      Inl RuntimeError"
    using b by (simp add: training_block_def py_range_def on_ok_def trainer_nan_def[THEN arg_cong, of shuffle]
        chunks_single X_narrow_def)
  with t b show ?thesis by (simp add: with_input_size_simps)
qed

text \<open>
  C6, as stated: \<open>fit\<close> raises a dimension error exactly for inputs of the wrong width. On an
  object configured for width four, an input of width three and an input of width four
  raise the same \<open>AttributeError\<close> at \<^verbatim>\<open>self.parameters()\<close>.
\<close>

theorem fit_raises_whatever_the_width:
  "input_size model_0 = PInt 4 \<and> map length X_narrow = [3] \<and> map length X_0 = [4] \<and>
   fit trainer_nan model_0 X_narrow [0] zero_generator = Inl (AttributeError ''parameters'') \<and>
   fit trainer_nan model_0 X_0 [0] zero_generator = Inl (AttributeError ''parameters'')"
  by (simp add: fit_raises model_0_def X_narrow_def X_0_def)

end
